theory Spec2Isabelle
  imports Complex_Main
begin

section \<open>Values of the host language\<close>

text \<open>
  The router of \<^verbatim>\<open>src/nsoap.js\<close> walks an arbitrary JavaScript object graph, so the
  embedding starts with the values that graph is made of.

  \<^item> Numbers carry their mathematical value (a rational), or one of the three special
    values; rounding to double precision is not represented.
  \<^item> Strings are byte lists; a character outside ASCII is its UTF-8 byte sequence.
  \<^item> A plain object is the association list of its own properties (the first binding of
    a key is the property). Members inherited from the built-in prototypes are not
    represented.
  \<^item> A function is an identifier, interpreted by an environment (type \<open>fenv\<close>) that maps
    the identifier, the receiver and the argument list to a returned value or a thrown
    fault; a function value also carries its own properties.
  \<^item> \<open>VGen\<close> is an iterator object with the native \<^verbatim>\<open>next\<close> method: the list is the script
    of the results of the successive calls of \<^verbatim>\<open>next()\<close>; once the script is used up,
    \<^verbatim>\<open>next()\<close> answers \<^verbatim>\<open>{value: undefined, done: true}\<close>, as a finished generator does.
  \<^item> A native promise is fulfilled, rejected, or never settles. An object or function
    with a callable \<^verbatim>\<open>then\<close> member is a thenable; what its \<^verbatim>\<open>then\<close> does is given by the
    environment (see \<open>await\<close>).
\<close>

datatype jsnum = NaN | PosInfinity | NegInfinity | Finite rat

type_synonym fid = nat

datatype jsval =
    VUndefined
  | VNull
  | VBool bool
  | VNum jsnum
  | VStr string
  | VObj "(string \<times> jsval) list"
  | VFun fid "(string \<times> jsval) list"
  | VGen "jsval list"
  | VFulfilled jsval
  | VRejected jsval
  | VPending

datatype fault = TypeError | URIError | Thrown jsval

type_synonym fenv = "fid \<Rightarrow> jsval \<Rightarrow> jsval list \<Rightarrow> fault + jsval"

text \<open>The operator \<^verbatim>\<open>typeof\<close>.\<close>

fun typeof :: "jsval \<Rightarrow> string" where
  "typeof VUndefined = ''undefined''"
| "typeof VNull = ''object''"
| "typeof (VBool b) = ''boolean''"
| "typeof (VNum n) = ''number''"
| "typeof (VStr s) = ''string''"
| "typeof (VObj ps) = ''object''"
| "typeof (VFun f ps) = ''function''"
| "typeof (VGen es) = ''object''"
| "typeof (VFulfilled v) = ''object''"
| "typeof (VRejected v) = ''object''"
| "typeof VPending = ''object''"

text \<open>Truthiness (the conversion to boolean made by \<^verbatim>\<open>if\<close>, \<^verbatim>\<open>&&\<close>, \<^verbatim>\<open>||\<close>, \<^verbatim>\<open>?:\<close>).\<close>

fun truthy :: "jsval \<Rightarrow> bool" where
  "truthy VUndefined = False"
| "truthy VNull = False"
| "truthy (VBool b) = b"
| "truthy (VNum n) = (n \<noteq> NaN \<and> n \<noteq> Finite 0)"
| "truthy (VStr s) = (s \<noteq> [])"
| "truthy (VObj ps) = True"
| "truthy (VFun f ps) = True"
| "truthy (VGen es) = True"
| "truthy (VFulfilled v) = True"
| "truthy (VRejected v) = True"
| "truthy VPending = True"

text \<open>
  Own properties: \<open>has_key\<close> tells whether a property list binds a key, \<open>lookup\<close> reads
  the key, \<^verbatim>\<open>undefined\<close> when it is absent.
\<close>

definition has_key :: "(string \<times> jsval) list \<Rightarrow> string \<Rightarrow> bool" where
  "has_key ps k = (map_of ps k \<noteq> None)"

definition lookup :: "(string \<times> jsval) list \<Rightarrow> string \<Rightarrow> jsval" where
  "lookup ps k = (case map_of ps k of None \<Rightarrow> VUndefined | Some v \<Rightarrow> v)"

text \<open>The index of the first occurrence of an element in a list.\<close>

fun position :: "'a \<Rightarrow> 'a list \<Rightarrow> nat option" where
  "position x [] = None"
| "position x (y # ys) = (if x = y then Some 0 else map_option Suc (position x ys))"

text \<open>Decimal notation of a natural number, as property keys and messages print it.\<close>

fun digitsOf :: "nat \<Rightarrow> nat \<Rightarrow> string \<Rightarrow> string" where
  "digitsOf 0 n acc = acc"
| "digitsOf (Suc fuel) n acc =
     (if n < 10 then (''0123456789'' ! n) # acc
      else digitsOf fuel (n div 10) ((''0123456789'' ! (n mod 10)) # acc))"

definition showNat :: "nat \<Rightarrow> string" where
  "showNat n = digitsOf (Suc n) n []"

text \<open>
  A member read \<^verbatim>\<open>v[k]\<close> (or \<^verbatim>\<open>v.k\<close>): a \<^verbatim>\<open>TypeError\<close> on \<^verbatim>\<open>undefined\<close> and \<^verbatim>\<open>null\<close>; the
  own property of an object or function; the \<^verbatim>\<open>length\<close> and the characters of a string
  (counted in bytes, which is the platform's count for an ASCII string); \<^verbatim>\<open>undefined\<close>
  otherwise. The native members of iterators and promises are not read this way: the
  executor reaches them only through \<^verbatim>\<open>__isIterable\<close>, \<^verbatim>\<open>next()\<close> and \<^verbatim>\<open>await\<close>, which are
  modelled below.
\<close>

fun getp :: "jsval \<Rightarrow> string \<Rightarrow> fault + jsval" where
  "getp VUndefined k = Inl TypeError"
| "getp VNull k = Inl TypeError"
| "getp (VObj ps) k = Inr (lookup ps k)"
| "getp (VFun f ps) k = Inr (lookup ps k)"
| "getp (VStr s) k =
     Inr (if k = ''length'' then VNum (Finite (of_nat (length s)))
          else (case position k (map showNat [0..<length s]) of
                  None \<Rightarrow> VUndefined
                | Some i \<Rightarrow> VStr [s ! i]))"
| "getp v k = Inr VUndefined"

text \<open>
  \<^verbatim>\<open>await v\<close>. A native promise gives its value when it is fulfilled, throws its reason when
  it is rejected, and never returns (\<open>None\<close>) when it never settles. An object or function
  whose \<^verbatim>\<open>then\<close> member is callable is a thenable: the platform calls \<^verbatim>\<open>v.then(resolve, reject)\<close>
  and waits for one of the two callbacks. The callbacks are not values of this model, so
  the environment's answer for the call of \<^verbatim>\<open>then\<close> (receiver \<open>v\<close>, no arguments) is read as
  what the call does with them: \<open>Inl e\<close>, it throws \<open>e\<close>; \<open>Inr (VFulfilled w)\<close>, it calls
  \<^verbatim>\<open>resolve(w)\<close>, and \<open>w\<close> is awaited in turn; \<open>Inr (VRejected e)\<close>, it calls \<^verbatim>\<open>reject(e)\<close>; any
  other answer, it returns without calling either, and the \<^verbatim>\<open>await\<close> never returns. Any
  other value is its own result. A chain of thenables that never ends never returns.
\<close>

definition thenMember :: "jsval \<Rightarrow> jsval" where
  "thenMember v =
     (case v of VObj ps \<Rightarrow> lookup ps ''then'' | VFun f ps \<Rightarrow> lookup ps ''then'' | _ \<Rightarrow> VUndefined)"

definition isThenable :: "jsval \<Rightarrow> bool" where
  "isThenable v = (typeof (thenMember v) = ''function'')"

text \<open>
  One turn of \<^verbatim>\<open>await\<close>: \<open>Inl r\<close> when the outcome \<open>r\<close> is known, \<open>Inr w\<close> when \<open>w\<close> is to be
  awaited next.
\<close>

definition awaitStep :: "fenv \<Rightarrow> jsval \<Rightarrow> (fault + jsval) option + jsval" where
  "awaitStep fe v =
     (case v of
        VFulfilled w \<Rightarrow> Inr w
      | VRejected e \<Rightarrow> Inl (Some (Inl (Thrown e)))
      | VPending \<Rightarrow> Inl None
      | _ \<Rightarrow>
          (case thenMember v of
             VFun g gps \<Rightarrow>
               (case fe g v [] of
                  Inl e \<Rightarrow> Inl (Some (Inl e))
                | Inr (VFulfilled w) \<Rightarrow> Inr w
                | Inr (VRejected e) \<Rightarrow> Inl (Some (Inl (Thrown e)))
                | Inr _ \<Rightarrow> Inl None)
           | _ \<Rightarrow> Inl (Some (Inr v))))"

partial_function (option) await :: "fenv \<Rightarrow> jsval \<Rightarrow> (fault + jsval) option" where
  "await fe v = (case awaitStep fe v of Inl r \<Rightarrow> r | Inr w \<Rightarrow> await fe w)"

declare await.simps [code]

section \<open>Strings: the platform functions the source calls\<close>

text \<open>\<^verbatim>\<open>s.indexOf(c)\<close> for a one-character needle: the first index, or \<open>-1\<close>.\<close>

definition indexOf :: "string \<Rightarrow> char \<Rightarrow> int" where
  "indexOf s c = (case position c s of None \<Rightarrow> - 1 | Some i \<Rightarrow> int i)"

text \<open>
  \<^verbatim>\<open>s.substring(start, end)\<close>: both indices are clamped to \<open>[0, length]\<close> and swapped when the
  start is the larger.
\<close>

definition substring :: "string \<Rightarrow> int \<Rightarrow> int \<Rightarrow> string" where
  "substring s start end' =
     (let n = int (length s);
          a = min (max start 0) n;
          b = min (max end' 0) n;
          from = min a b;
          to = max a b
      in take (nat (to - from)) (drop (nat from) s))"

text \<open>\<^verbatim>\<open>s.split(c)\<close> for a one-character separator; the empty string gives one empty piece.\<close>

fun split :: "string \<Rightarrow> char \<Rightarrow> string list" where
  "split [] d = [[]]"
| "split (c # cs) d =
     (if c = d then [] # split cs d
      else (case split cs d of [] \<Rightarrow> [[c]] | w # ws \<Rightarrow> (c # w) # ws))"

text \<open>
  \<^verbatim>\<open>s.trim()\<close>. White space is tab, line feed, vertical tab, form feed, carriage return,
  space, and the UTF-8 encodings of U+00A0, U+1680, U+2000..U+200A, U+2028, U+2029, U+202F,
  U+205F, U+3000 and U+FEFF.
\<close>

definition ws1 :: "char \<Rightarrow> bool" where
  "ws1 c = (c \<in> set [CHR 0x09, CHR 0x0A, CHR 0x0B, CHR 0x0C, CHR 0x0D, CHR 0x20])"

definition ws2 :: "char \<Rightarrow> char \<Rightarrow> bool" where
  "ws2 a b = (a = CHR 0xC2 \<and> b = CHR 0xA0)"

definition ws3 :: "char \<Rightarrow> char \<Rightarrow> char \<Rightarrow> bool" where
  "ws3 a b c =
     ((a = CHR 0xE1 \<and> b = CHR 0x9A \<and> c = CHR 0x80) \<or>
      (a = CHR 0xE2 \<and> b = CHR 0x80 \<and>
         c \<in> set [CHR 0x80, CHR 0x81, CHR 0x82, CHR 0x83, CHR 0x84, CHR 0x85, CHR 0x86,
                   CHR 0x87, CHR 0x88, CHR 0x89, CHR 0x8A, CHR 0xA8, CHR 0xA9, CHR 0xAF]) \<or>
      (a = CHR 0xE2 \<and> b = CHR 0x81 \<and> c = CHR 0x9F) \<or>
      (a = CHR 0xE3 \<and> b = CHR 0x80 \<and> c = CHR 0x80) \<or>
      (a = CHR 0xEF \<and> b = CHR 0xBB \<and> c = CHR 0xBF))"

fun trimStart :: "string \<Rightarrow> string" where
  "trimStart (a # b # c # s) =
     (if ws1 a then trimStart (b # c # s)
      else if ws2 a b then trimStart (c # s)
      else if ws3 a b c then trimStart s
      else a # b # c # s)"
| "trimStart [a, b] =
     (if ws1 a then trimStart [b] else if ws2 a b then [] else [a, b])"
| "trimStart [a] = (if ws1 a then [] else [a])"
| "trimStart [] = []"

fun trimEndRev :: "string \<Rightarrow> string" where
  "trimEndRev (c # b # a # s) =
     (if ws1 c then trimEndRev (b # a # s)
      else if ws2 b c then trimEndRev (a # s)
      else if ws3 a b c then trimEndRev s
      else c # b # a # s)"
| "trimEndRev [b, a] =
     (if ws1 b then trimEndRev [a] else if ws2 a b then [] else [b, a])"
| "trimEndRev [a] = (if ws1 a then [] else [a])"
| "trimEndRev [] = []"

definition trim :: "string \<Rightarrow> string" where
  "trim s = rev (trimEndRev (rev (trimStart s)))"

text \<open>The regular expression \<^verbatim>\<open>/^[a-zA-Z_$][a-zA-Z_$0-9]*$/\<close> of the source, as \<^verbatim>\<open>test\<close>.\<close>

definition identStart :: "char \<Rightarrow> bool" where
  "identStart c = (c \<in> set ''abcdefghijklmnopqrstuvwxyzABCDEFGHIJKLMNOPQRSTUVWXYZ_$'')"

definition identPart :: "char \<Rightarrow> bool" where
  "identPart c = (identStart c \<or> c \<in> set ''0123456789'')"

fun identifierRegex :: "string \<Rightarrow> bool" where
  "identifierRegex [] = False"
| "identifierRegex (c # cs) = (identStart c \<and> list_all identPart cs)"

subsection \<open>Conversion of a string to a number\<close>

text \<open>
  \<^verbatim>\<open>Number(s)\<close>, which \<^verbatim>\<open>isNaN(s)\<close> and \<^verbatim>\<open>+s\<close> apply to a string: white space is trimmed; the
  empty string is 0; a signed decimal literal with optional fraction and exponent, the
  word \<^verbatim>\<open>Infinity\<close>, and an unsigned hexadecimal, octal or binary literal are numbers;
  every other string is \<^verbatim>\<open>NaN\<close>.
\<close>

definition digitVal :: "char \<Rightarrow> nat option" where
  "digitVal c = position c ''0123456789''"

definition hexVal :: "char \<Rightarrow> nat option" where
  "hexVal c =
     (case position c ''0123456789abcdef'' of
        Some n \<Rightarrow> Some n
      | None \<Rightarrow> map_option (\<lambda>n. n + 10) (position c ''ABCDEF''))"

definition isDigit :: "char \<Rightarrow> bool" where
  "isDigit c = (digitVal c \<noteq> None)"

fun digitsValue :: "nat \<Rightarrow> string \<Rightarrow> nat \<Rightarrow> nat option" where
  "digitsValue base [] acc = Some acc"
| "digitsValue base (c # cs) acc =
     (case hexVal c of
        None \<Rightarrow> None
      | Some d \<Rightarrow> if d < base then digitsValue base cs (base * acc + d) else None)"

definition scale10 :: "nat \<Rightarrow> int \<Rightarrow> rat" where
  "scale10 m e = (if 0 \<le> e then of_nat m * 10 ^ nat e else of_nat m / 10 ^ nat (- e))"

definition unsignedDigits :: "string \<Rightarrow> nat option" where
  "unsignedDigits s = (if s = [] then None else digitsValue 10 s 0)"

definition exponentPart :: "string \<Rightarrow> int option" where
  "exponentPart s =
     (case s of
        [] \<Rightarrow> Some 0
      | c # t \<Rightarrow>
          if c = CHR ''e'' \<or> c = CHR ''E'' then
            (case t of
               [] \<Rightarrow> None
             | d # u \<Rightarrow>
                 if d = CHR ''+'' then map_option int (unsignedDigits u)
                 else if d = CHR ''-'' then map_option (\<lambda>n. - int n) (unsignedDigits u)
                 else map_option int (unsignedDigits t))
          else None)"

definition strUnsignedDecimal :: "string \<Rightarrow> jsnum" where
  "strUnsignedDecimal s =
     (if s = ''Infinity'' then PosInfinity
      else
        let ip = takeWhile isDigit s;
            r1 = dropWhile isDigit s;
            fp = (case r1 of [] \<Rightarrow> [] | c # t \<Rightarrow> if c = CHR ''.'' then takeWhile isDigit t else []);
            r2 = (case r1 of [] \<Rightarrow> [] | c # t \<Rightarrow> if c = CHR ''.'' then dropWhile isDigit t else r1)
        in if ip = [] \<and> fp = [] then NaN
           else (case (digitsValue 10 (ip @ fp) 0, exponentPart r2) of
                   (Some m, Some e) \<Rightarrow> Finite (scale10 m (e - int (length fp)))
                 | _ \<Rightarrow> NaN))"

fun negate :: "jsnum \<Rightarrow> jsnum" where
  "negate NaN = NaN"
| "negate PosInfinity = NegInfinity"
| "negate NegInfinity = PosInfinity"
| "negate (Finite r) = Finite (- r)"

definition nonDecimal :: "nat \<Rightarrow> string \<Rightarrow> jsnum" where
  "nonDecimal base s =
     (if s = [] then NaN
      else (case digitsValue base s 0 of None \<Rightarrow> NaN | Some m \<Rightarrow> Finite (of_nat m)))"

definition strNumericLiteral :: "string \<Rightarrow> jsnum" where
  "strNumericLiteral t =
     (case t of
        [] \<Rightarrow> Finite 0
      | c # u \<Rightarrow>
          if c = CHR ''+'' then strUnsignedDecimal u
          else if c = CHR ''-'' then negate (strUnsignedDecimal u)
          else if c = CHR ''0'' \<and> u \<noteq> [] \<and> hd u \<in> set ''xX'' then nonDecimal 16 (tl u)
          else if c = CHR ''0'' \<and> u \<noteq> [] \<and> hd u \<in> set ''oO'' then nonDecimal 8 (tl u)
          else if c = CHR ''0'' \<and> u \<noteq> [] \<and> hd u \<in> set ''bB'' then nonDecimal 2 (tl u)
          else strUnsignedDecimal t)"

definition toNumber :: "string \<Rightarrow> jsnum" where
  "toNumber s = strNumericLiteral (trim s)"

definition isNaN :: "string \<Rightarrow> bool" where
  "isNaN s = (toNumber s = NaN)"

subsection \<open>Percent-decoding\<close>

text \<open>
  \<^verbatim>\<open>decodeURI\<close>, the function the source calls. An escape \<^verbatim>\<open>%XX\<close> below \<open>0x80\<close> is replaced by
  its character unless that character is one of \<^verbatim>\<open>; / ? : @ & = + $ , #\<close>, in which case the
  three characters of the escape stay as they are. An escape from \<open>0x80\<close> on starts a
  UTF-8 sequence, whose continuation bytes must be escapes too; the bytes of a well-formed
  sequence are the decoded character. A truncated or non-hexadecimal escape and an
  ill-formed sequence throw \<^verbatim>\<open>URIError\<close>.
\<close>

definition reservedURISet :: "char list" where
  "reservedURISet = '';/?:@&=+$,#''"

fun readEscape :: "string \<Rightarrow> (nat \<times> string) option" where
  "readEscape (p # h # l # rest) =
     (if p = CHR ''%'' then
        (case (hexVal h, hexVal l) of
           (Some a, Some b) \<Rightarrow> Some (16 * a + b, rest)
         | _ \<Rightarrow> None)
      else None)"
| "readEscape s = None"

fun readContinuation :: "nat \<Rightarrow> string \<Rightarrow> (nat list \<times> string) option" where
  "readContinuation 0 s = Some ([], s)"
| "readContinuation (Suc n) s =
     (case readEscape s of
        None \<Rightarrow> None
      | Some (b, rest) \<Rightarrow>
          (case readContinuation n rest of
             None \<Rightarrow> None
           | Some (bs, rest') \<Rightarrow> Some (b # bs, rest')))"

definition utf8Length :: "nat \<Rightarrow> nat" where
  "utf8Length b =
     (if b < 0x80 then 0 else if b < 0xC0 then 1 else if b < 0xE0 then 2
      else if b < 0xF0 then 3 else if b < 0xF8 then 4 else 5)"

definition cont :: "nat \<Rightarrow> bool" where
  "cont b = (0x80 \<le> b \<and> b \<le> 0xBF)"

fun validUtf8 :: "nat list \<Rightarrow> bool" where
  "validUtf8 [a, b] = (0xC2 \<le> a \<and> a \<le> 0xDF \<and> cont b)"
| "validUtf8 [a, b, c] =
     ((a = 0xE0 \<and> 0xA0 \<le> b \<and> b \<le> 0xBF \<and> cont c) \<or>
      (0xE1 \<le> a \<and> a \<le> 0xEC \<and> cont b \<and> cont c) \<or>
      (a = 0xED \<and> 0x80 \<le> b \<and> b \<le> 0x9F \<and> cont c) \<or>
      (0xEE \<le> a \<and> a \<le> 0xEF \<and> cont b \<and> cont c))"
| "validUtf8 [a, b, c, d] =
     ((a = 0xF0 \<and> 0x90 \<le> b \<and> b \<le> 0xBF \<and> cont c \<and> cont d) \<or>
      (0xF1 \<le> a \<and> a \<le> 0xF3 \<and> cont b \<and> cont c \<and> cont d) \<or>
      (a = 0xF4 \<and> 0x80 \<le> b \<and> b \<le> 0x8F \<and> cont c \<and> cont d))"
| "validUtf8 bs = False"

lemma readEscape_shorter: "readEscape s = Some (b, rest) \<Longrightarrow> length rest < length s"
  by (induction s rule: readEscape.induct) (auto split: if_splits option.splits)

lemma readContinuation_shorter:
  "readContinuation n s = Some (bs, rest) \<Longrightarrow> length rest \<le> length s"
proof (induction n arbitrary: s bs rest)
  case 0
  then show ?case by simp
next
  case (Suc n)
  then show ?case
    by (fastforce split: option.splits prod.splits dest: readEscape_shorter)
qed

function decodeURI :: "string \<Rightarrow> fault + string" where
  "decodeURI [] = Inr []"
| "decodeURI (c # cs) =
     (if c \<noteq> CHR ''%'' then
        (case decodeURI cs of Inl e \<Rightarrow> Inl e | Inr r \<Rightarrow> Inr (c # r))
      else
        (case readEscape (c # cs) of
           None \<Rightarrow> Inl URIError
         | Some (b, rest) \<Rightarrow>
             if utf8Length b = 0 then
               (case decodeURI rest of
                  Inl e \<Rightarrow> Inl e
                | Inr r \<Rightarrow>
                    if char_of b \<in> set reservedURISet then Inr (take 3 (c # cs) @ r)
                    else Inr (char_of b # r))
             else if utf8Length b = 1 \<or> utf8Length b > 4 then Inl URIError
             else
               (case readContinuation (utf8Length b - 1) rest of
                  None \<Rightarrow> Inl URIError
                | Some (bs, rest') \<Rightarrow>
                    if validUtf8 (b # bs) then
                      (case decodeURI rest' of
                         Inl e \<Rightarrow> Inl e
                       | Inr r \<Rightarrow> Inr (map char_of (b # bs) @ r))
                    else Inl URIError)))"
  by pat_completeness auto
termination
proof (relation "measure length")
  show "wf (measure length)" by simp
next
  fix c :: char and cs :: string
  show "(cs, c # cs) \<in> measure length" by simp
next
  fix c :: char and cs :: string and x2 x y
  assume "readEscape (c # cs) = Some x2" "(x, y) = x2"
  then show "(y, c # cs) \<in> measure length"
    using readEscape_shorter [of "c # cs" x y] by simp
next
  fix c :: char and cs :: string and x2 x y x2a xa ya
  assume "readEscape (c # cs) = Some x2" "(x, y) = x2"
    "readContinuation (utf8Length x - 1) y = Some x2a" "(xa, ya) = x2a"
  then show "(ya, c # cs) \<in> measure length"
    using readEscape_shorter [of "c # cs" x y]
      readContinuation_shorter [of "utf8Length x - 1" y xa ya] by simp
qed

section \<open>The source, function by function\<close>

subsection \<open>\<^verbatim>\<open>hasOwnProperty\<close> (lines 81-83)\<close>

text \<open>
  \<^verbatim>\<open>Object.prototype.hasOwnProperty.call(obj, prop)\<close>: a \<^verbatim>\<open>TypeError\<close> on \<^verbatim>\<open>null\<close> and
  \<^verbatim>\<open>undefined\<close>; a string owns \<^verbatim>\<open>length\<close> and its indices.
\<close>

fun objectHasOwn :: "jsval \<Rightarrow> string \<Rightarrow> fault + bool" where
  "objectHasOwn VUndefined p = Inl TypeError"
| "objectHasOwn VNull p = Inl TypeError"
| "objectHasOwn (VObj ps) p = Inr (has_key ps p)"
| "objectHasOwn (VFun f ps) p = Inr (has_key ps p)"
| "objectHasOwn (VStr s) p = Inr (p = ''length'' \<or> p \<in> set (map showNat [0..<length s]))"
| "objectHasOwn v p = Inr False"

definition hasOwnProperty :: "jsval \<Rightarrow> string \<Rightarrow> fault + bool" where
  "hasOwnProperty obj prop =
     (if typeof obj = ''object'' then objectHasOwn obj prop else Inr False)"

subsection \<open>\<^verbatim>\<open>getArgumentValue\<close> (lines 9-32)\<close>

text \<open>A call \<^verbatim>\<open>f.apply(this, args)\<close>; calling what is not a function is a \<^verbatim>\<open>TypeError\<close>.\<close>

fun callFn :: "fenv \<Rightarrow> jsval \<Rightarrow> jsval \<Rightarrow> jsval list \<Rightarrow> fault + jsval" where
  "callFn fe (VFun f ps) this argv = fe f this argv"
| "callFn fe v this argv = Inl TypeError"

text \<open>The object literals \<^verbatim>\<open>{ value: v }\<close> and \<^verbatim>\<open>{ error: msg }\<close>.\<close>

definition valueOf :: "jsval \<Rightarrow> jsval" where
  "valueOf v = VObj [(''value'', v)]"

definition errorOf :: "string \<Rightarrow> jsval" where
  "errorOf msg = VObj [(''error'', VStr msg)]"

text \<open>The loop over \<^verbatim>\<open>dicts\<close> (lines 16-28), for a token \<open>a\<close> that is a valid identifier.\<close>

fun lookupDicts :: "fenv \<Rightarrow> jsval list \<Rightarrow> string \<Rightarrow> fault + jsval" where
  "lookupDicts fe [] a = Inr (valueOf (VStr a))"
| "lookupDicts fe (dict # dicts) a =
     (if typeof dict = ''function'' then
        (case callFn fe dict VUndefined [VStr a] of
           Inl e \<Rightarrow> Inl e
         | Inr val \<Rightarrow> if truthy val then Inr val else lookupDicts fe dicts a)
      else
        (case hasOwnProperty dict a of
           Inl e \<Rightarrow> Inl e
         | Inr own \<Rightarrow>
             if own then
               (case getp dict a of Inl e \<Rightarrow> Inl e | Inr v \<Rightarrow> Inr (valueOf v))
             else lookupDicts fe dicts a))"

definition getArgumentValue :: "fenv \<Rightarrow> jsval list \<Rightarrow> string \<Rightarrow> fault + jsval" where
  "getArgumentValue fe dicts a =
     (if a = ''true'' \<or> a = ''false'' then Inr (valueOf (VBool (a = ''true'')))
      else if isNaN a then
        (if identifierRegex a then lookupDicts fe dicts a
         else Inr (errorOf (a @ '' is not a valid identifier.'')))
      else Inr (valueOf (VNum (toNumber a))))"

subsection \<open>\<^verbatim>\<open>analyzePath\<close> (lines 39-59)\<close>

datatype part = ObjectPart string | FunctionPart string "jsval list"

fun part_identifier :: "part \<Rightarrow> string" where
  "part_identifier (ObjectPart i) = i"
| "part_identifier (FunctionPart i as) = i"

text \<open>\<^verbatim>\<open>xs.map(f)\<close> for an \<open>f\<close> that may throw: the first fault ends the map.\<close>

fun mapE :: "('a \<Rightarrow> fault + 'b) \<Rightarrow> 'a list \<Rightarrow> fault + 'b list" where
  "mapE f [] = Inr []"
| "mapE f (x # xs) =
     (case f x of
        Inl e \<Rightarrow> Inl e
      | Inr y \<Rightarrow> (case mapE f xs of Inl e \<Rightarrow> Inl e | Inr ys \<Rightarrow> Inr (y # ys)))"

definition analyzePart :: "fenv \<Rightarrow> jsval list \<Rightarrow> string \<Rightarrow> fault + part" where
  "analyzePart fe dicts p =
     (let openingBracket = indexOf p CHR ''(''
      in if openingBracket > - 1 then
           (let closingBracket = indexOf p CHR '')'';
                ident = substring p 0 openingBracket;
                argsString = substring p (openingBracket + 1) closingBracket
            in case mapE (getArgumentValue fe dicts) (map trim (split argsString CHR '','')) of
                 Inl e \<Rightarrow> Inl e
               | Inr as \<Rightarrow> Inr (FunctionPart ident as))
         else Inr (ObjectPart p))"

text \<open>
  Line 42 tests the number \<^verbatim>\<open>path.indexOf(".")\<close> for truth: it is false only when the index
  is 0.
\<close>

definition pathParts :: "string \<Rightarrow> string list" where
  "pathParts path = (if indexOf path CHR ''.'' \<noteq> 0 then split path CHR ''.'' else [path])"

definition analyzePath :: "fenv \<Rightarrow> string \<Rightarrow> jsval list \<Rightarrow> fault + part list" where
  "analyzePath fe encodedPath dicts =
     (case decodeURI encodedPath of
        Inl e \<Rightarrow> Inl e
      | Inr path \<Rightarrow> mapE (analyzePart fe dicts) (pathParts path))"

subsection \<open>\<^verbatim>\<open>route\<close> (lines 85-181)\<close>

record RoutingError =
  message :: string
  type :: string

datatype result = Value jsval | Error RoutingError

text \<open>
  The options. \<open>onNextValue\<close> is the value of the option, \<^verbatim>\<open>undefined\<close> when it is absent; the
  executor calls it through the environment (its receiver, the options object, is not a
  value of the model: the call gets \<^verbatim>\<open>undefined\<close>), ignores what it returns, and rejects
  when it throws. The calls are observed through the list of the values the hook was
  called with, which the executor threads along. \<open>args\<close> is \<^verbatim>\<open>options.args || []\<close>.
  \<open>index\<close> is \<open>None\<close> when the option is absent: as a property key, \<^verbatim>\<open>undefined\<close> is then
  the string \<^verbatim>\<open>"undefined"\<close>.
\<close>

record options =
  onNextValue :: jsval
  args :: "jsval list"
  prependArgs :: bool
  modifyHandler :: "(jsval \<Rightarrow> jsval \<Rightarrow> fault + jsval) option"
  index :: "string option"

text \<open>
  A computation that may suspend: \<open>None\<close> when it never resumes, \<open>Some (Inl e)\<close> when it
  throws (an \<^verbatim>\<open>async\<close> function then rejects), \<open>Some (Inr x)\<close> when it returns \<open>x\<close>.
\<close>

definition bindC :: "(fault + 'a) option \<Rightarrow> ('a \<Rightarrow> (fault + 'b) option) \<Rightarrow> (fault + 'b) option" where
  "bindC m f = (case m of None \<Rightarrow> None | Some (Inl e) \<Rightarrow> Some (Inl e) | Some (Inr x) \<Rightarrow> f x)"

definition bindE :: "fault + 'a \<Rightarrow> ('a \<Rightarrow> (fault + 'b) option) \<Rightarrow> (fault + 'b) option" where
  "bindE m f = (case m of Inl e \<Rightarrow> Some (Inl e) | Inr x \<Rightarrow> f x)"

text \<open>
  \<^verbatim>\<open>__isIterable\<close> (lines 77-79): \<^verbatim>\<open>gen.next && typeof gen.next === "function"\<close>. An
  iterator object has the native \<^verbatim>\<open>next\<close>; any other value is asked for its member. (The
  function \<^verbatim>\<open>isIterable\<close> of lines 68-75 is called nowhere in the source.)
\<close>

definition dunder_isIterable :: "jsval \<Rightarrow> fault + bool" where
  "dunder_isIterable gen =
     (case gen of
        VGen es \<Rightarrow> Inr True
      | _ \<Rightarrow> (case getp gen ''next'' of
                Inl e \<Rightarrow> Inl e
              | Inr n \<Rightarrow> Inr (truthy n \<and> typeof n = ''function'')))"

text \<open>
  \<^verbatim>\<open>gen.next()\<close>: the result of the call, and the iterator as the call leaves it.
\<close>

fun callNext :: "fenv \<Rightarrow> jsval \<Rightarrow> fault + jsval \<times> jsval" where
  "callNext fe (VGen []) =
     Inr (VObj [(''value'', VUndefined), (''done'', VBool True)], VGen [])"
| "callNext fe (VGen (r # rs)) = Inr (r, VGen rs)"
| "callNext fe gen =
     (case getp gen ''next'' of
        Inl e \<Rightarrow> Inl e
      | Inr n \<Rightarrow> (case callFn fe n gen [] of Inl e \<Rightarrow> Inl e | Inr r \<Rightarrow> Inr (r, gen)))"

text \<open>
  One turn of the loop of \<^verbatim>\<open>iterateToEnd\<close> (lines 95-101). \<open>Inl (v, seen)\<close>: the loop returns
  \<open>v\<close>; \<open>Inr (gen, seen)\<close>: it goes round again.
\<close>

definition pull ::
  "fenv \<Rightarrow> options \<Rightarrow> jsval \<Rightarrow> jsval list \<Rightarrow>
     (fault + (jsval \<times> jsval list) + (jsval \<times> jsval list)) option" where
  "pull fe opts gen seen =
     bindE (callNext fe gen) (\<lambda>(r, gen').
     bindC (await fe r) (\<lambda>nextVal.
     bindE (getp nextVal ''done'') (\<lambda>done.
     bindC (if truthy (onNextValue opts) \<and> \<not> truthy done then
              bindE (getp nextVal ''value'') (\<lambda>v.
              bindC (await fe v) (\<lambda>v'.
              bindE (callFn fe (onNextValue opts) VUndefined [v']) (\<lambda>ignored.
                Some (Inr (seen @ [v'])))))
            else Some (Inr seen)) (\<lambda>seen'.
     if truthy done then
       bindE (getp nextVal ''value'') (\<lambda>v.
       bindC (await fe v) (\<lambda>v'. Some (Inr (Inl (v', seen')))))
     else Some (Inr (Inr (gen', seen')))))))"

partial_function (option) iterLoop ::
  "fenv \<Rightarrow> options \<Rightarrow> jsval \<Rightarrow> jsval list \<Rightarrow> (fault + jsval \<times> jsval list) option" where
  "iterLoop fe opts gen seen =
     (case pull fe opts gen seen of
        None \<Rightarrow> None
      | Some (Inl e) \<Rightarrow> Some (Inl e)
      | Some (Inr (Inl res)) \<Rightarrow> Some (Inr res)
      | Some (Inr (Inr (gen', seen'))) \<Rightarrow> iterLoop fe opts gen' seen')"

declare iterLoop.simps [code]

text \<open>
  \<^verbatim>\<open>iterateToEnd\<close> (lines 91-106). It is an \<^verbatim>\<open>async\<close> function and every caller awaits it, so
  a promise it returns is awaited.
\<close>

definition iterateToEnd ::
  "fenv \<Rightarrow> options \<Rightarrow> jsval \<Rightarrow> jsval list \<Rightarrow> (fault + jsval \<times> jsval list) option" where
  "iterateToEnd fe opts resultOrGenerator seen =
     bindE (dunder_isIterable resultOrGenerator) (\<lambda>it.
       if it then iterLoop fe opts resultOrGenerator seen
       else bindC (await fe resultOrGenerator) (\<lambda>v. Some (Inr (v, seen))))"

text \<open>The two errors the walk builds (lines 134-143 and 154-157).\<close>

definition notFound :: RoutingError where
  "notFound = \<lparr>message = ''The requested path was not found.'', type = ''NOT_FOUND''\<rparr>"

definition notAFunction :: "string \<Rightarrow> jsval \<Rightarrow> RoutingError" where
  "notAFunction obj fn =
     \<lparr>message = obj @ '' is not a function. Was '' @ typeof fn @ ''.'',
      type = ''NOT_A_FUNCTION''\<rparr>"

text \<open>
  Line 117. \<open>obj\<close> is \<open>None\<close> while the variable is \<^verbatim>\<open>undefined\<close>; the test \<^verbatim>\<open>obj ? ... : ...\<close> is
  also false for the empty string.
\<close>

definition extendObj :: "string option \<Rightarrow> string \<Rightarrow> string" where
  "extendObj obj ident =
     (case obj of
        None \<Rightarrow> ident
      | Some p \<Rightarrow> if p \<noteq> [] then p @ ''.'' @ ident else ident)"

text \<open>Lines 119-121 and 169-171: \<^verbatim>\<open>modifyHandler\<close>, when configured, replaces \<^verbatim>\<open>current\<close>.\<close>

definition applyHandler :: "options \<Rightarrow> jsval \<Rightarrow> jsval \<Rightarrow> fault + jsval" where
  "applyHandler opts current key =
     (case modifyHandler opts of None \<Rightarrow> Inr current | Some h \<Rightarrow> h current key)"

text \<open>Lines 128-130: the argument list of a function part.\<close>

definition callArgs :: "options \<Rightarrow> jsval list \<Rightarrow> fault + jsval list" where
  "callArgs opts as =
     (case mapE (\<lambda>a. getp a ''value'') as of
        Inl e \<Rightarrow> Inl e
      | Inr vs \<Rightarrow> Inr (if prependArgs opts then args opts @ vs else vs @ args opts))"

text \<open>
  The body of the loop over the parts, from line 118 on, for one part. \<open>obj\<close> is the
  display path already extended by line 117. The body either leaves the loop (\<open>Break\<close>,
  with the error if one was set) or hands the next \<^verbatim>\<open>current\<close> to the following part.
\<close>

datatype outcome = Break "RoutingError option" jsval "jsval list" | Next jsval "jsval list"

definition step ::
  "fenv \<Rightarrow> options \<Rightarrow> part \<Rightarrow> string \<Rightarrow> jsval \<Rightarrow> jsval list \<Rightarrow> (fault + outcome) option" where
  "step fe opts p obj current seen =
     (if typeof current \<noteq> ''undefined'' then
        bindE (applyHandler opts current (VStr (part_identifier p))) (\<lambda>current.
        bindE (hasOwnProperty current (part_identifier p)) (\<lambda>own.
          if own then
            (case p of
               FunctionPart ident as \<Rightarrow>
                 bindE (getp current ident) (\<lambda>fn.
                   if typeof fn = ''function'' then
                     bindE (callArgs opts as) (\<lambda>argv.
                     bindE (callFn fe fn current argv) (\<lambda>r.
                     bindC (await fe r) (\<lambda>resultOrGenerator.
                     bindC (iterateToEnd fe opts resultOrGenerator seen) (\<lambda>(v, seen').
                       Some (Inr (Next v seen'))))))
                   else if typeof fn = ''undefined'' then
                     Some (Inr (Break (Some notFound) current seen))
                   else Some (Inr (Break (Some (notAFunction obj fn)) current seen)))
             | ObjectPart ident \<Rightarrow>
                 bindE (getp current ident) (\<lambda>ref.
                 bindE (if typeof ref = ''function'' then callFn fe ref current (args opts)
                        else Inr ref) (\<lambda>r.
                 bindC (await fe r) (\<lambda>resultOrGenerator.
                 bindC (iterateToEnd fe opts resultOrGenerator seen) (\<lambda>(v, seen').
                   Some (Inr (Next v seen')))))))
          else Some (Inr (Break (Some notFound) current seen))))
      else Some (Inr (Break None current seen)))"

text \<open>
  The loop of lines 116-163. It returns the error (if any), the last \<^verbatim>\<open>current\<close> and the
  values handed to the hook.
\<close>

fun walk ::
  "fenv \<Rightarrow> options \<Rightarrow> part list \<Rightarrow> string option \<Rightarrow> jsval \<Rightarrow> jsval list \<Rightarrow>
     (fault + RoutingError option \<times> jsval \<times> jsval list) option" where
  "walk fe opts [] obj current seen = Some (Inr (None, current, seen))"
| "walk fe opts (p # ps) obj current seen =
     (case step fe opts p (extendObj obj (part_identifier p)) current seen of
        None \<Rightarrow> None
      | Some (Inl e) \<Rightarrow> Some (Inl e)
      | Some (Inr (Break err current' seen')) \<Rightarrow> Some (Inr (err, current', seen'))
      | Some (Inr (Next current' seen')) \<Rightarrow>
          walk fe opts ps (Some (extendObj obj (part_identifier p))) current' seen')"

text \<open>Lines 165-180: the final result, with the index member when \<^verbatim>\<open>current\<close> owns it.\<close>

definition indexKey :: "options \<Rightarrow> string" where
  "indexKey opts = (case index opts of None \<Rightarrow> ''undefined'' | Some i \<Rightarrow> i)"

definition indexValue :: "options \<Rightarrow> jsval" where
  "indexValue opts = (case index opts of None \<Rightarrow> VUndefined | Some i \<Rightarrow> VStr i)"

definition finalResult ::
  "fenv \<Rightarrow> options \<Rightarrow> RoutingError option \<Rightarrow> jsval \<Rightarrow> jsval list \<Rightarrow>
     (fault + result \<times> jsval list) option" where
  "finalResult fe opts error current seen =
     (case error of
        Some e \<Rightarrow> Some (Inr (Error e, seen))
      | None \<Rightarrow>
          bindE (hasOwnProperty current (indexKey opts)) (\<lambda>own.
            if own then
              bindE (applyHandler opts current (indexValue opts)) (\<lambda>current.
              bindE (getp current (indexKey opts)) (\<lambda>member.
              bindE (if typeof member = ''function'' then callFn fe member current (args opts)
                     else Inr member) (\<lambda>resultOrGenerator.
              bindC (iterateToEnd fe opts resultOrGenerator seen) (\<lambda>(v, seen').
                Some (Inr (Value v, seen'))))))
            else bindC (await fe current) (\<lambda>v. Some (Inr (Value v, seen)))))"

text \<open>
  \<^verbatim>\<open>route\<close>. The result is \<open>None\<close> when the call never settles, \<open>Some (Inl e)\<close> when it
  rejects, and otherwise the value or \<^verbatim>\<open>RoutingError\<close> it resolves to, with the values the
  hook \<^verbatim>\<open>onNextValue\<close> received, in order.
\<close>

definition route ::
  "fenv \<Rightarrow> jsval \<Rightarrow> string \<Rightarrow> jsval list \<Rightarrow> options \<Rightarrow> (fault + result \<times> jsval list) option" where
  "route fe app' expression dicts opts =
     bindE (if typeof app' = ''function'' then callFn fe app' VUndefined [] else Inr app') (\<lambda>app.
     bindE (if expression \<noteq> [] then analyzePath fe expression dicts else Inr []) (\<lambda>parts.
     bindC (walk fe opts parts None app []) (\<lambda>(error, current, seen).
       finalResult fe opts error current seen)))"

text \<open>The default options (\<^verbatim>\<open>options = {}\<close>).\<close>

definition noOptions :: options where
  "noOptions = \<lparr>onNextValue = VUndefined, args = [], prependArgs = False, modifyHandler = None,
     index = None\<rparr>"

section \<open>Auxiliary notions for the statements\<close>

text \<open>
  An argument source that does not resolve the token \<open>a\<close>: a function that returns a falsy
  value for it, or a value that does not own a property of that name.
\<close>

definition noMatch :: "fenv \<Rightarrow> string \<Rightarrow> jsval \<Rightarrow> bool" where
  "noMatch fe a dict =
     (if typeof dict = ''function'' then
        (case callFn fe dict VUndefined [VStr a] of Inl e \<Rightarrow> False | Inr val \<Rightarrow> \<not> truthy val)
      else hasOwnProperty dict a = Inr False)"

text \<open>
  The rest of \<^verbatim>\<open>route\<close> from a state of the loop: the parts still to walk, the display path,
  \<^verbatim>\<open>current\<close> and the values the hook has received. \<^verbatim>\<open>route\<close> is \<open>routeFrom\<close> at the initial
  state, and a part that hands over to the next one leads from one such state to the next.
\<close>

definition routeFrom ::
  "fenv \<Rightarrow> options \<Rightarrow> part list \<Rightarrow> string option \<Rightarrow> jsval \<Rightarrow> jsval list \<Rightarrow>
     (fault + result \<times> jsval list) option" where
  "routeFrom fe opts ps obj current seen =
     bindC (walk fe opts ps obj current seen) (\<lambda>(error, current, seen).
       finalResult fe opts error current seen)"

text \<open>The result \<^verbatim>\<open>{ value: v, done: d }\<close> that an iterator's \<^verbatim>\<open>next()\<close> gives.\<close>

definition iterResult :: "jsval \<Rightarrow> bool \<Rightarrow> jsval" where
  "iterResult v d = VObj [(''value'', v), (''done'', VBool d)]"

text \<open>
  The display path after the parts \<open>ps\<close> have been walked (line 117, part after part).
\<close>

fun objAfter :: "string option \<Rightarrow> part list \<Rightarrow> string option" where
  "objAfter obj [] = obj"
| "objAfter obj (p # ps) = objAfter (Some (extendObj obj (part_identifier p))) ps"

text \<open>
  What one call of \<^verbatim>\<open>next()\<close> delivers once it is awaited, as lines 95-100 read it: whether
  the result reports completion (\<^verbatim>\<open>done\<close>), and its awaited \<^verbatim>\<open>value\<close>.
\<close>

definition pulled :: "fenv \<Rightarrow> jsval \<Rightarrow> (fault + bool \<times> jsval) option" where
  "pulled fe r =
     bindC (await fe r) (\<lambda>nextVal.
     bindE (getp nextVal ''done'') (\<lambda>done.
     bindE (getp nextVal ''value'') (\<lambda>v.
     bindC (await fe v) (\<lambda>v'. Some (Inr (truthy done, v'))))))"








section \<open>Example applications\<close>

text \<open>
  The conversion to a string that \<^verbatim>\<open>"Hello, " + name\<close> applies to \<^verbatim>\<open>name\<close>. Integral numbers
  print in decimal; a non-integral number is printed as a fraction and a function as a
  fixed text, which is not what the platform prints: the examples below never reach them.
\<close>

definition numToString :: "jsnum \<Rightarrow> string" where
  "numToString n =
     (case n of
        NaN \<Rightarrow> ''NaN''
      | PosInfinity \<Rightarrow> ''Infinity''
      | NegInfinity \<Rightarrow> ''-Infinity''
      | Finite r \<Rightarrow>
          (let (a, b) = quotient_of r;
               sign = (if a < 0 then ''-'' else [])
           in if b = 1 then sign @ showNat (nat \<bar>a\<bar>)
              else sign @ showNat (nat \<bar>a\<bar>) @ ''/'' @ showNat (nat b)))"

fun toStringJS :: "jsval \<Rightarrow> string" where
  "toStringJS VUndefined = ''undefined''"
| "toStringJS VNull = ''null''"
| "toStringJS (VBool b) = (if b then ''true'' else ''false'')"
| "toStringJS (VNum n) = numToString n"
| "toStringJS (VStr s) = s"
| "toStringJS (VObj ps) = ''[object Object]''"
| "toStringJS (VFun f ps) = ''function''"
| "toStringJS (VGen es) = ''[object Generator]''"
| "toStringJS v = ''[object Promise]''"

text \<open>
  The application \<^verbatim>\<open>{ greet: (name) => "Hello, " + name }\<close>: function 0 is \<^verbatim>\<open>greet\<close>. Function 1
  is a resolver \<^verbatim>\<open>(name) => "bob"\<close>, used as an argument source. Function 2 is an
  \<^verbatim>\<open>async\<close> function that returns an asynchronous generator: its \<^verbatim>\<open>next()\<close> gives a promise
  of a result holding a promise of 1, then a result holding 2, then a promise of the
  final result \<^verbatim>\<open>"end"\<close>. Function 3 is a hook \<^verbatim>\<open>(v) => true\<close>. A parameter that gets no
  argument is \<^verbatim>\<open>undefined\<close>.
\<close>

definition firstArg :: "jsval list \<Rightarrow> jsval" where
  "firstArg argv = (case argv of [] \<Rightarrow> VUndefined | v # vs \<Rightarrow> v)"

definition exampleEnv :: fenv where
  "exampleEnv f this argv =
     (if f = 1 then Inr (VStr ''bob'')
      else if f = 2 then
        Inr (VFulfilled (VGen [VFulfilled (iterResult (VFulfilled (VNum (Finite 1))) False),
          iterResult (VNum (Finite 2)) False, VFulfilled (iterResult (VStr ''end'') True)]))
      else if f = 3 then Inr (VBool True)
      else Inr (VStr (''Hello, '' @ toStringJS (firstArg argv))))"

definition greetApp :: jsval where
  "greetApp = VObj [(''greet'', VFun 0 [])]"

section \<open>Properties of the path analyzer\<close>

text \<open>
  C3 (as amended). The path grammar has no quoted string literals: routing \<^verbatim>\<open>greet(World)\<close>,
  the argument written as a bare token, against \<^verbatim>\<open>{ greet: (name) => "Hello, " + name }\<close>
  with no extra arguments and no index returns \<^verbatim>\<open>"Hello, World"\<close>; the quoted token
  \<^verbatim>\<open>"World"\<close> is no valid identifier, resolves to an argument error whose \<^verbatim>\<open>value\<close> is
  \<^verbatim>\<open>undefined\<close>, and the call returns \<^verbatim>\<open>"Hello, undefined"\<close>.
\<close>

theorem greet_bare_token:
  \<open>route exampleEnv greetApp ''greet(World)'' [] noOptions
     = Some (Inr (Value (VStr ''Hello, World''), [])) \<and>
   analyzePath exampleEnv ''greet("World")'' []
     = Inr [FunctionPart ''greet'' [errorOf ''"World" is not a valid identifier.'']]\<close>
  by code_simp

text \<open>
  C3 (as stated) fails: routing \<^verbatim>\<open>greet("World")\<close> returns \<^verbatim>\<open>"Hello, undefined"\<close>, not
  \<^verbatim>\<open>"Hello, World"\<close>.
\<close>

theorem greet_quoted_counterexample:
  \<open>route exampleEnv greetApp ''greet("World")'' [] noOptions
     = Some (Inr (Value (VStr ''Hello, undefined''), [])) \<and>
   route exampleEnv greetApp ''greet("World")'' [] noOptions
     \<noteq> Some (Inr (Value (VStr ''Hello, World''), []))\<close>
  by code_simp

text \<open>
  C4 (as amended). Analysis percent-decodes the path with \<^verbatim>\<open>decodeURI\<close> before it splits
  it: an escape \<^verbatim>\<open>%XX\<close> below \<open>0x80\<close> is decoded to its character, so \<^verbatim>\<open>%28\<close>, \<^verbatim>\<open>%29\<close> and \<^verbatim>\<open>%2E\<close>
  become \<^verbatim>\<open>(\<close>, \<^verbatim>\<open>)\<close> and \<^verbatim>\<open>.\<close> (and a decoded dot separates two parts), except the escapes
  of the reserved characters \<^verbatim>\<open>; / ? : @ & = + $ , #\<close>, which stay as written: \<^verbatim>\<open>%2C\<close> is
  not decoded to a comma.
\<close>

theorem decodeURI_escape:
  \<open>(hexVal h = Some a \<and> hexVal l = Some b \<and> 16 * a + b < 128 \<longrightarrow>
      decodeURI (CHR ''%'' # h # l # rest) =
        (case decodeURI rest of
           Inl e \<Rightarrow> Inl e
         | Inr r \<Rightarrow>
             Inr ((if char_of (16 * a + b) \<in> set reservedURISet then [CHR ''%'', h, l]
                   else [char_of (16 * a + b)]) @ r))) \<and>
   decodeURI ''%28%29%2E'' = Inr ''().'' \<and>
   decodeURI ''%2C'' = Inr ''%2C'' \<and>
   analyzePath fe ''a%2Eb'' dicts = Inr [ObjectPart ''a'', ObjectPart ''b'']\<close>
proof -
  have esc: "decodeURI (CHR ''%'' # h # l # rest) =
        (case decodeURI rest of
           Inl e \<Rightarrow> Inl e
         | Inr r \<Rightarrow>
             Inr ((if char_of (16 * a + b) \<in> set reservedURISet then [CHR ''%'', h, l]
                   else [char_of (16 * a + b)]) @ r))"
    if "hexVal h = Some a" "hexVal l = Some b" "16 * a + b < 128"
    using that by (simp add: utf8Length_def split: sum.splits)
  have c1: "decodeURI ''%28%29%2E'' = Inr ''().''" by code_simp
  have c2: "decodeURI ''%2C'' = Inr ''%2C''" by code_simp
  have d: "decodeURI ''a%2Eb'' = Inr ''a.b''" by code_simp
  have p: "pathParts ''a.b'' = [''a'', ''b'']" by code_simp
  have o1: "analyzePart fe dicts ''a'' = Inr (ObjectPart ''a'')"
    by (simp add: analyzePart_def indexOf_def)
  have o2: "analyzePart fe dicts ''b'' = Inr (ObjectPart ''b'')"
    by (simp add: analyzePart_def indexOf_def)
  have c3: "analyzePath fe ''a%2Eb'' dicts = Inr [ObjectPart ''a'', ObjectPart ''b'']"
    unfolding analyzePath_def d by (simp add: p o1 o2)
  show ?thesis using esc c1 c2 c3 by blast
qed

text \<open>The escape \<^verbatim>\<open>%28\<close> satisfies the hypotheses and decodes to \<^verbatim>\<open>(\<close>.\<close>

theorem decodeURI_escape_witness:
  \<open>hexVal CHR ''2'' = Some 2 \<and> hexVal CHR ''8'' = Some 8 \<and> (16 * 2 + 8 < (128::nat)) \<and>
   decodeURI ''%28'' = Inr ''(''\<close>
proof -
  have h: "hexVal CHR ''2'' = Some 2 \<and> hexVal CHR ''8'' = Some 8 \<and> 16 * 2 + 8 < (128::nat)"
    by code_simp
  have c: "char_of (16 * 2 + 8 :: nat) = CHR ''(''" by code_simp
  have r: "CHR ''('' \<notin> set reservedURISet" by code_simp
  have e: "decodeURI [] = Inr []" by simp
  from decodeURI_escape [where h = "CHR ''2''" and l = "CHR ''8''" and a = 2 and b = 8
      and rest = "[]"]
  have "hexVal CHR ''2'' = Some 2 \<and> hexVal CHR ''8'' = Some 8 \<and> 16 * 2 + 8 < (128::nat) \<longrightarrow>
      decodeURI ''%28'' =
        (case decodeURI [] of
           Inl e \<Rightarrow> Inl e
         | Inr r \<Rightarrow>
             Inr ((if char_of (16 * 2 + 8 :: nat) \<in> set reservedURISet then ''%28''
                   else [char_of (16 * 2 + 8 :: nat)]) @ r))"
    by (rule conjunct1)
  with h have "decodeURI ''%28'' =
        (case decodeURI [] of
           Inl e \<Rightarrow> Inl e
         | Inr r \<Rightarrow>
             Inr ((if char_of (16 * 2 + 8 :: nat) \<in> set reservedURISet then ''%28''
                   else [char_of (16 * 2 + 8 :: nat)]) @ r))"
    by (rule rev_mp)
  then have "decodeURI ''%28'' = Inr ''(''"
    unfolding c e using r by simp
  with h show ?thesis by blast
qed

text \<open>
  C4 (as stated) fails: the escape of the comma is left in the path, and the argument list
  \<^verbatim>\<open>1%2C2\<close> is one token.
\<close>

theorem comma_escape_counterexample:
  \<open>decodeURI ''%2C'' = Inr ''%2C'' \<and> decodeURI ''%2C'' \<noteq> Inr '','' \<and>
   analyzePath exampleEnv ''f(1%2C2)'' []
     = Inr [FunctionPart ''f'' [errorOf ''1%2C2 is not a valid identifier.'']]\<close>
  by code_simp

lemma pathParts_no_leading_dot:
  "path = [] \<or> hd path \<noteq> CHR ''.'' \<Longrightarrow> pathParts path = split path CHR ''.''"
  by (cases path) (auto simp: pathParts_def indexOf_def split: option.splits)

lemma pathParts_leading_dot: "pathParts (CHR ''.'' # rest) = [CHR ''.'' # rest]"
  by (simp add: pathParts_def indexOf_def)

text \<open>
  C5, at the input where the code departs from it: a path that starts with a dot is not
  split, since \<^verbatim>\<open>path.indexOf(".")\<close> is then 0, which line 42 takes for false; the whole
  path becomes one object step, where splitting gives three segments.
\<close>

theorem leading_dot_path_not_split:
  \<open>analyzePath exampleEnv ''.a.b'' [] = Inr [ObjectPart ''.a.b''] \<and>
   split ''.a.b'' CHR ''.'' = [[], ''a'', ''b'']\<close>
  by code_simp

subsection \<open>Argument resolution\<close>

lemma lookupDicts_skip:
  "list_all (noMatch fe a) pre \<Longrightarrow> lookupDicts fe (pre @ rest) a = lookupDicts fe rest a"
  by (induction pre) (auto simp: noMatch_def split: sum.splits if_splits)

lemma truthy_getp: "truthy v \<Longrightarrow> \<exists>m. getp v k = Inr m"
  by (cases v) auto

lemma getArgumentValue_identifier:
  "a \<noteq> ''true'' \<Longrightarrow> a \<noteq> ''false'' \<Longrightarrow> isNaN a \<Longrightarrow> identifierRegex a \<Longrightarrow>
     getArgumentValue fe dicts a = lookupDicts fe dicts a"
  by (simp add: getArgumentValue_def)

text \<open>
  C6 (as amended). When an argument source that is a function returns a truthy value \<open>v\<close>
  for a bare identifier token, and no earlier source resolved the token, \<open>v\<close> itself is
  the token's Argument (it is not wrapped in \<^verbatim>\<open>{ value: v }\<close>), and the function step is
  invoked with the member \<^verbatim>\<open>v.value\<close> in that argument position: with the wrapped value when
  the source returned \<^verbatim>\<open>{ value: x }\<close>, with \<^verbatim>\<open>undefined\<close> when it returned a bare string
  or number.
\<close>

theorem function_source_argument:
  assumes "a \<noteq> ''true''" "a \<noteq> ''false''" "isNaN a" "identifierRegex a"
    and "list_all (noMatch fe a) pre"
    and "fe f VUndefined [VStr a] = Inr v" "truthy v"
  shows "getArgumentValue fe (pre @ VFun f fps # post) a = Inr v \<and>
    (\<exists>m. getp v ''value'' = Inr m \<and>
       callArgs opts [v] = Inr (if prependArgs opts then args opts @ [m] else m # args opts))"
proof -
  have "lookupDicts fe (pre @ VFun f fps # post) a = lookupDicts fe (VFun f fps # post) a"
    using assms(5) by (rule lookupDicts_skip)
  also have "\<dots> = Inr v" using assms(6,7) by simp
  finally have 1: "getArgumentValue fe (pre @ VFun f fps # post) a = Inr v"
    using assms(1-4) by (simp add: getArgumentValue_identifier)
  obtain m where m: "getp v ''value'' = Inr m" using truthy_getp [OF assms(7)] by blast
  then have "callArgs opts [v] = Inr (if prependArgs opts then args opts @ [m] else m # args opts)"
    by (simp add: callArgs_def)
  with 1 m show ?thesis by blast
qed

text \<open>The resolver \<^verbatim>\<open>(name) => "bob"\<close> after a source that does not know \<^verbatim>\<open>x\<close>.\<close>

theorem function_source_argument_witness:
  \<open>getArgumentValue exampleEnv [VObj [(''y'', VNull)], VFun 1 []] ''x'' = Inr (VStr ''bob'') \<and>
   callArgs noOptions [VStr ''bob''] = Inr [VUndefined]\<close>
proof -
  have h: "''x'' \<noteq> ''true''" "''x'' \<noteq> ''false''" "isNaN ''x''" "identifierRegex ''x''"
    "list_all (noMatch exampleEnv ''x'') [VObj [(''y'', VNull)]]"
    "exampleEnv 1 VUndefined [VStr ''x''] = Inr (VStr ''bob'')" "truthy (VStr ''bob'')"
    by code_simp+
  have m: "getp (VStr ''bob'') ''value'' = Inr VUndefined" by code_simp
  from function_source_argument [OF h, where fps = "[]" and post = "[]" and opts = noOptions]
  show ?thesis unfolding m by (simp add: noOptions_def)
qed

text \<open>
  C6 (as stated) fails: the resolver returns \<^verbatim>\<open>"bob"\<close> for \<^verbatim>\<open>x\<close>, and \<^verbatim>\<open>greet(x)\<close> is invoked
  with \<^verbatim>\<open>undefined\<close>, not with \<^verbatim>\<open>"bob"\<close>.
\<close>

theorem function_source_counterexample:
  \<open>getArgumentValue exampleEnv [VFun 1 []] ''x'' = Inr (VStr ''bob'') \<and>
   route exampleEnv greetApp ''greet(x)'' [VFun 1 []] noOptions
     = Some (Inr (Value (VStr ''Hello, undefined''), [])) \<and>
   route exampleEnv greetApp ''greet(x)'' [VFun 1 []] noOptions
     \<noteq> Some (Inr (Value (VStr ''Hello, bob''), []))\<close>
  by code_simp



section \<open>Properties of the routing executor\<close>

subsection \<open>Awaiting\<close>

lemma await_settled: "awaitStep fe v = Inl r \<Longrightarrow> await fe v = r"
  by (subst await.simps) simp

lemma await_next: "awaitStep fe v = Inr w \<Longrightarrow> await fe v = await fe w"
  by (subst await.simps) simp

lemma await_VFulfilled [simp]: "await fe (VFulfilled w) = await fe w"
  by (rule await_next) (simp add: awaitStep_def)

lemma await_VRejected [simp]: "await fe (VRejected e) = Some (Inl (Thrown e))"
  by (rule await_settled) (simp add: awaitStep_def)

lemma await_VPending [simp]: "await fe VPending = None"
  by (rule await_settled) (simp add: awaitStep_def)

lemma await_plain:
  assumes "\<not> isThenable v" "typeof v \<noteq> ''object'' \<or> (\<exists>ps. v = VObj ps) \<or> (\<exists>es. v = VGen es) \<or> v = VNull"
  shows "await fe v = Some (Inr v)"
proof (rule await_settled)
  from assms(1) have "\<And>g gps. thenMember v \<noteq> VFun g gps"
    by (auto simp: isThenable_def)
  with assms(2) show "awaitStep fe v = Inl (Some (Inr v))"
    by (cases v; cases "thenMember v") (auto simp: awaitStep_def)
qed

lemma await_primitive [simp]:
  "await fe VUndefined = Some (Inr VUndefined)"
  "await fe VNull = Some (Inr VNull)"
  "await fe (VBool b) = Some (Inr (VBool b))"
  "await fe (VNum n) = Some (Inr (VNum n))"
  "await fe (VStr s) = Some (Inr (VStr s))"
  "await fe (VGen es) = Some (Inr (VGen es))"
  by (rule await_plain; simp add: isThenable_def thenMember_def)+


lemma await_non_object:
  "typeof v \<noteq> ''object'' \<Longrightarrow> \<not> isThenable v \<Longrightarrow> await fe v = Some (Inr v)"
  by (rule await_plain) auto

subsection \<open>The walk, part by part\<close>

lemma route_routeFrom:
  "route fe app' expression dicts opts =
     bindE (if typeof app' = ''function'' then callFn fe app' VUndefined [] else Inr app') (\<lambda>app.
     bindE (if expression \<noteq> [] then analyzePath fe expression dicts else Inr []) (\<lambda>parts.
       routeFrom fe opts parts None app []))"
  by (simp add: route_def routeFrom_def)

lemma routeFrom_Next:
  "step fe opts p (extendObj obj (part_identifier p)) current seen = Some (Inr (Next c s)) \<Longrightarrow>
     routeFrom fe opts (p # ps) obj current seen
       = routeFrom fe opts ps (Some (extendObj obj (part_identifier p))) c s"
  by (simp add: routeFrom_def)

lemma routeFrom_Break:
  "step fe opts p (extendObj obj (part_identifier p)) current seen = Some (Inr (Break (Some e) c s)) \<Longrightarrow>
     routeFrom fe opts (p # ps) obj current seen = Some (Inr (Error e, s))"
  by (simp add: routeFrom_def bindC_def finalResult_def)

lemma step_missing:
  "typeof current \<noteq> ''undefined'' \<Longrightarrow>
   applyHandler opts current (VStr (part_identifier p)) = Inr cur \<Longrightarrow>
   hasOwnProperty cur (part_identifier p) = Inr False \<Longrightarrow>
   step fe opts p obj current seen = Some (Inr (Break (Some notFound) cur seen))"
  by (simp add: step_def bindE_def)

lemma step_not_callable:
  "typeof current \<noteq> ''undefined'' \<Longrightarrow>
   applyHandler opts current (VStr ident) = Inr cur \<Longrightarrow>
   hasOwnProperty cur ident = Inr True \<Longrightarrow>
   getp cur ident = Inr fn \<Longrightarrow> typeof fn \<noteq> ''function'' \<Longrightarrow>
   step fe opts (FunctionPart ident as) obj current seen =
     Some (Inr (Break (Some (if typeof fn = ''undefined'' then notFound else notAFunction obj fn))
       cur seen))"
  by (simp add: step_def bindE_def)

lemma step_undefined:
  "typeof current = ''undefined'' \<Longrightarrow>
     step fe opts p obj current seen = Some (Inr (Break None current seen))"
  by (simp add: step_def)

lemma bindE_Some: "bindE m f = Some (Inr y) \<Longrightarrow> \<exists>x. m = Inr x \<and> f x = Some (Inr y)"
  by (cases m) (auto simp: bindE_def)

lemma bindC_Some: "bindC m f = Some (Inr y) \<Longrightarrow> \<exists>x. m = Some (Inr x) \<and> f x = Some (Inr y)"
  by (auto simp: bindC_def split: option.splits sum.splits)

lemma step_Break_None:
  assumes "step fe opts p obj current seen = Some (Inr (Break None c s))"
  shows "typeof current = ''undefined''"
proof (rule ccontr)
  assume "typeof current \<noteq> ''undefined''"
  with assms show False
    by (cases p)
      (auto simp: step_def bindE_def bindC_def
        split: sum.splits option.splits if_splits prod.splits)
qed

lemma walk_append:
  "walk fe opts pre obj c0 s0 = Some (Inr (None, c, s)) \<Longrightarrow> typeof c \<noteq> ''undefined'' \<Longrightarrow>
     walk fe opts (pre @ rest) obj c0 s0 = walk fe opts rest (objAfter obj pre) c s"
proof (induction pre arbitrary: obj c0 s0)
  case Nil
  then show ?case by simp
next
  case (Cons p pre)
  show ?case
  proof (cases "step fe opts p (extendObj obj (part_identifier p)) c0 s0")
    case None
    with Cons.prems show ?thesis by simp
  next
    case (Some a)
    show ?thesis
    proof (cases a)
      case (Inl e)
      with Some Cons.prems show ?thesis by simp
    next
      case (Inr out)
      show ?thesis
      proof (cases out)
        case (Break err c' s')
        with Some Inr Cons.prems(1) have "err = None" "c' = c" by simp_all
        with Some Inr Break have "typeof c0 = ''undefined''"
          using step_Break_None by blast
        with Some Inr Break \<open>c' = c\<close> Cons.prems(2) show ?thesis
          by (simp add: step_undefined)
      next
        case (Next c' s')
        with Some Inr Cons.prems(1)
        have "walk fe opts pre (Some (extendObj obj (part_identifier p))) c' s'
            = Some (Inr (None, c, s))" by simp
        from Cons.IH [OF this Cons.prems(2)] Some Inr Next show ?thesis by simp
      qed
    qed
  qed
qed

lemma walk_append_undefined:
  "walk fe opts pre obj c0 s0 = Some (Inr (None, c, s)) \<Longrightarrow> typeof c = ''undefined'' \<Longrightarrow>
     walk fe opts (pre @ rest) obj c0 s0 = Some (Inr (None, c, s))"
proof (induction pre arbitrary: obj c0 s0)
  case Nil
  then show ?case by (cases rest) (simp_all add: step_undefined)
next
  case (Cons p pre)
  show ?case
  proof (cases "step fe opts p (extendObj obj (part_identifier p)) c0 s0")
    case None
    with Cons.prems show ?thesis by simp
  next
    case (Some a)
    show ?thesis
    proof (cases a)
      case (Inl e)
      with Some Cons.prems show ?thesis by simp
    next
      case (Inr out)
      show ?thesis
      proof (cases out)
        case (Break err c' s')
        with Some Inr Cons.prems(1) show ?thesis by simp
      next
        case (Next c' s')
        with Some Inr Cons.prems(1)
        have "walk fe opts pre (Some (extendObj obj (part_identifier p))) c' s'
            = Some (Inr (None, c, s))" by simp
        from Cons.IH [OF this Cons.prems(2)] Some Inr Next show ?thesis by simp
      qed
    qed
  qed
qed

lemma route_step_error:
  assumes "(if typeof app' = ''function'' then callFn fe app' VUndefined [] else Inr app') = Inr app"
    and "(if expression \<noteq> [] then analyzePath fe expression dicts else Inr []) = Inr (pre @ p # rest)"
    and "walk fe opts pre None app [] = Some (Inr (None, current, seen))"
    and "step fe opts p (extendObj (objAfter None pre) (part_identifier p)) current seen
      = Some (Inr (Break (Some e) c s))"
  shows "route fe app' expression dicts opts = Some (Inr (Error e, s))"
proof -
  have d: "typeof current \<noteq> ''undefined''"
    using assms(4) by (auto simp: step_undefined)
  have "walk fe opts (pre @ p # rest) None app []
      = walk fe opts (p # rest) (objAfter None pre) current seen"
    using assms(3) d by (rule walk_append)
  also have "\<dots> = Some (Inr (Some e, c, s))"
    using assms(4) by simp
  finally show ?thesis
    using assms(1,2) by (simp add: route_def bindE_def bindC_def finalResult_def)
qed

lemma route_silent_stop:
  assumes "(if typeof app' = ''function'' then callFn fe app' VUndefined [] else Inr app') = Inr app"
    and "(if expression \<noteq> [] then analyzePath fe expression dicts else Inr []) = Inr (pre @ rest)"
    and "walk fe opts pre None app [] = Some (Inr (None, current, seen))"
    and "typeof current = ''undefined''"
  shows "route fe app' expression dicts opts = Some (Inr (Value VUndefined, seen))"
proof -
  from assms(4) have c: "current = VUndefined" by (cases current) auto
  have "walk fe opts (pre @ rest) None app [] = Some (Inr (None, current, seen))"
    using assms(3,4) by (rule walk_append_undefined)
  then show ?thesis
    using assms(1,2) c
    by (simp add: route_def bindE_def bindC_def finalResult_def hasOwnProperty_def)
qed

lemma route_resolution_failure:
  assumes "(if typeof app' = ''function'' then callFn fe app' VUndefined [] else Inr app') = Inr app"
    and "(if expression \<noteq> [] then analyzePath fe expression dicts else Inr []) = Inr (pre @ p # rest)"
    and "walk fe opts pre None app [] = Some (Inr (None, current, seen))"
    and "typeof current \<noteq> ''undefined''"
    and "applyHandler opts current (VStr (part_identifier p)) = Inr cur"
  shows "hasOwnProperty cur (part_identifier p) = Inr False \<Longrightarrow>
      route fe app' expression dicts opts = Some (Inr (Error notFound, seen))"
    and "p = FunctionPart ident as \<Longrightarrow> hasOwnProperty cur ident = Inr True \<Longrightarrow>
      getp cur ident = Inr fn \<Longrightarrow> typeof fn \<noteq> ''function'' \<Longrightarrow>
      route fe app' expression dicts opts =
        Some (Inr (Error (if typeof fn = ''undefined'' then notFound
          else notAFunction (extendObj (objAfter None pre) ident) fn), seen))"
proof -
  show "route fe app' expression dicts opts = Some (Inr (Error notFound, seen))"
    if "hasOwnProperty cur (part_identifier p) = Inr False"
    using step_missing [OF assms(4,5) that] by (intro route_step_error [OF assms(1-3)])
  show "route fe app' expression dicts opts =
        Some (Inr (Error (if typeof fn = ''undefined'' then notFound
          else notAFunction (extendObj (objAfter None pre) ident) fn), seen))"
    if "p = FunctionPart ident as" "hasOwnProperty cur ident = Inr True"
      "getp cur ident = Inr fn" "typeof fn \<noteq> ''function''"
  proof -
    from assms(5) that(1) have h: "applyHandler opts current (VStr ident) = Inr cur" by simp
    show ?thesis
      using step_not_callable [OF assms(4) h that(2-4), of fe as
          "extendObj (objAfter None pre) ident" seen] that(1)
      by (intro route_step_error [OF assms(1-3)]) simp
  qed
qed

text \<open>
  C8 (as amended). Let the walk have processed the parts before \<open>p\<close> without an error and
  reach \<open>p\<close> with \<^verbatim>\<open>current\<close>. If \<^verbatim>\<open>current\<close> is defined: when the own-property check answers
  that the member is missing, \<^verbatim>\<open>route\<close> returns the \<^verbatim>\<open>RoutingError\<close> of type \<^verbatim>\<open>NOT_FOUND\<close>; when
  \<open>p\<close> is a function step and the member is defined but not callable, \<^verbatim>\<open>route\<close> returns the
  \<^verbatim>\<open>RoutingError\<close> of type \<^verbatim>\<open>NOT_A_FUNCTION\<close> whose message is the dotted path accumulated so
  far, followed by \<^verbatim>\<open>is not a function. Was\<close> and the member's \<^verbatim>\<open>typeof\<close> name; when the
  member of a function step is \<^verbatim>\<open>undefined\<close>, the error is \<^verbatim>\<open>NOT_FOUND\<close>. In each case the error
  is the result of \<^verbatim>\<open>route\<close> whatever parts follow: none of them is processed. If \<^verbatim>\<open>current\<close>
  is \<^verbatim>\<open>undefined\<close>, no error arises: the walk stops and \<^verbatim>\<open>route\<close> returns \<^verbatim>\<open>undefined\<close>.
\<close>

theorem routing_errors:
  assumes "(if typeof app' = ''function'' then callFn fe app' VUndefined [] else Inr app') = Inr app"
    and "(if expression \<noteq> [] then analyzePath fe expression dicts else Inr []) = Inr (pre @ p # rest)"
    and "walk fe opts pre None app [] = Some (Inr (None, current, seen))"
  shows "(typeof current \<noteq> ''undefined'' \<and>
      applyHandler opts current (VStr (part_identifier p)) = Inr cur \<and>
      hasOwnProperty cur (part_identifier p) = Inr False \<longrightarrow>
        route fe app' expression dicts opts =
          Some (Inr (Error \<lparr>message = ''The requested path was not found.'',
            type = ''NOT_FOUND''\<rparr>, seen))) \<and>
    (typeof current \<noteq> ''undefined'' \<and> p = FunctionPart ident as \<and>
      applyHandler opts current (VStr ident) = Inr cur \<and>
      hasOwnProperty cur ident = Inr True \<and> getp cur ident = Inr fn \<and>
      typeof fn \<noteq> ''function'' \<and> typeof fn \<noteq> ''undefined'' \<longrightarrow>
        route fe app' expression dicts opts =
          Some (Inr (Error
            \<lparr>message = extendObj (objAfter None pre) ident @ '' is not a function. Was ''
               @ typeof fn @ ''.'',
             type = ''NOT_A_FUNCTION''\<rparr>, seen))) \<and>
    (typeof current \<noteq> ''undefined'' \<and> p = FunctionPart ident as \<and>
      applyHandler opts current (VStr ident) = Inr cur \<and>
      hasOwnProperty cur ident = Inr True \<and> getp cur ident = Inr fn \<and>
      typeof fn = ''undefined'' \<longrightarrow>
        route fe app' expression dicts opts =
          Some (Inr (Error \<lparr>message = ''The requested path was not found.'',
            type = ''NOT_FOUND''\<rparr>, seen))) \<and>
    (typeof current = ''undefined'' \<longrightarrow>
        route fe app' expression dicts opts = Some (Inr (Value VUndefined, seen)))"
proof -
  have 1: "route fe app' expression dicts opts = Some (Inr (Error notFound, seen))"
    if "typeof current \<noteq> ''undefined''"
      "applyHandler opts current (VStr (part_identifier p)) = Inr cur"
      "hasOwnProperty cur (part_identifier p) = Inr False"
    using route_resolution_failure(1) [OF assms that] .
  have 2: "route fe app' expression dicts opts =
      Some (Inr (Error (if typeof fn = ''undefined'' then notFound
        else notAFunction (extendObj (objAfter None pre) ident) fn), seen))"
    if "typeof current \<noteq> ''undefined''" "p = FunctionPart ident as"
      "applyHandler opts current (VStr ident) = Inr cur"
      "hasOwnProperty cur ident = Inr True" "getp cur ident = Inr fn" "typeof fn \<noteq> ''function''"
  proof -
    from that(2,3) have "applyHandler opts current (VStr (part_identifier p)) = Inr cur" by simp
    from route_resolution_failure(2) [OF assms that(1) this that(2,4,5,6)] show ?thesis .
  qed
  have 3: "route fe app' expression dicts opts = Some (Inr (Value VUndefined, seen))"
    if "typeof current = ''undefined''"
    using assms(2) route_silent_stop [OF assms(1) _ assms(3) that, of expression dicts "p # rest"]
    by simp
  show ?thesis
    using 1 2 3 by (auto simp: notFound_def notAFunction_def)
qed

text \<open>
  Instances, for the root \<^verbatim>\<open>{ a: { b: 3, u: undefined } }\<close>: the missing member \<^verbatim>\<open>c\<close>, the call
  of the number \<^verbatim>\<open>b\<close>, and the call of the member \<^verbatim>\<open>u\<close>; and for the root \<^verbatim>\<open>{ g: gen }\<close>,
  where \<^verbatim>\<open>gen\<close> is a generator that completes at once with \<^verbatim>\<open>undefined\<close>, the path \<^verbatim>\<open>g.x.y\<close>.
\<close>

theorem routing_errors_witness:
  \<open>route exampleEnv (VObj [(''a'', VObj [(''b'', VNum (Finite 3)), (''u'', VUndefined)])])
       ''a.c.d'' [] noOptions
     = Some (Inr (Error \<lparr>message = ''The requested path was not found.'', type = ''NOT_FOUND''\<rparr>,
         [])) \<and>
   route exampleEnv (VObj [(''a'', VObj [(''b'', VNum (Finite 3)), (''u'', VUndefined)])])
       ''a.b(1).d'' [] noOptions
     = Some (Inr (Error \<lparr>message = ''a.b is not a function. Was number.'',
         type = ''NOT_A_FUNCTION''\<rparr>, [])) \<and>
   route exampleEnv (VObj [(''a'', VObj [(''b'', VNum (Finite 3)), (''u'', VUndefined)])])
       ''a.u(1).d'' [] noOptions
     = Some (Inr (Error \<lparr>message = ''The requested path was not found.'', type = ''NOT_FOUND''\<rparr>,
         [])) \<and>
   route exampleEnv (VObj [(''g'', VGen [])]) ''g.x.y'' [] noOptions
     = Some (Inr (Value VUndefined, []))\<close>
proof -
  let ?root = "VObj [(''a'', VObj [(''b'', VNum (Finite 3)), (''u'', VUndefined)])]"
  let ?cur = "VObj [(''b'', VNum (Finite 3)), (''u'', VUndefined)]"
  let ?arg = "[valueOf (VNum (Finite 1))]"
  have root: "(if typeof ?root = ''function'' then callFn exampleEnv ?root VUndefined []
      else Inr ?root) = Inr ?root" by simp
  have pre: "walk exampleEnv noOptions [ObjectPart ''a''] None ?root []
      = Some (Inr (None, ?cur, []))" by code_simp
  have p1: "(if ''a.c.d'' \<noteq> [] then analyzePath exampleEnv ''a.c.d'' [] else Inr [])
      = Inr ([ObjectPart ''a''] @ ObjectPart ''c'' # [ObjectPart ''d''])" by code_simp
  have p2: "(if ''a.b(1).d'' \<noteq> [] then analyzePath exampleEnv ''a.b(1).d'' [] else Inr [])
      = Inr ([ObjectPart ''a''] @ FunctionPart ''b'' ?arg # [ObjectPart ''d''])" by code_simp
  have p3: "(if ''a.u(1).d'' \<noteq> [] then analyzePath exampleEnv ''a.u(1).d'' [] else Inr [])
      = Inr ([ObjectPart ''a''] @ FunctionPart ''u'' ?arg # [ObjectPart ''d''])" by code_simp
  have h1: "typeof ?cur \<noteq> ''undefined'' \<and>
      applyHandler noOptions ?cur (VStr (part_identifier (ObjectPart ''c''))) = Inr ?cur \<and>
      hasOwnProperty ?cur (part_identifier (ObjectPart ''c'')) = Inr False"
    by code_simp
  have h2: "typeof ?cur \<noteq> ''undefined'' \<and> FunctionPart ''b'' ?arg = FunctionPart ''b'' ?arg \<and>
      applyHandler noOptions ?cur (VStr ''b'') = Inr ?cur \<and>
      hasOwnProperty ?cur ''b'' = Inr True \<and> getp ?cur ''b'' = Inr (VNum (Finite 3)) \<and>
      typeof (VNum (Finite 3)) \<noteq> ''function'' \<and> typeof (VNum (Finite 3)) \<noteq> ''undefined''"
    by code_simp
  have h3: "typeof ?cur \<noteq> ''undefined'' \<and> FunctionPart ''u'' ?arg = FunctionPart ''u'' ?arg \<and>
      applyHandler noOptions ?cur (VStr ''u'') = Inr ?cur \<and>
      hasOwnProperty ?cur ''u'' = Inr True \<and> getp ?cur ''u'' = Inr VUndefined \<and>
      typeof VUndefined = ''undefined''"
    by code_simp
  have m: "extendObj (objAfter None [ObjectPart ''a'']) ''b'' @ '' is not a function. Was ''
      @ typeof (VNum (Finite 3)) @ ''.'' = ''a.b is not a function. Was number.''"
    by code_simp
  have 1: "route exampleEnv ?root ''a.c.d'' [] noOptions
     = Some (Inr (Error \<lparr>message = ''The requested path was not found.'', type = ''NOT_FOUND''\<rparr>,
         []))"
    using routing_errors [OF root p1 pre, where cur = ?cur] h1 by blast
  have 2: "route exampleEnv ?root ''a.b(1).d'' [] noOptions
     = Some (Inr (Error \<lparr>message = extendObj (objAfter None [ObjectPart ''a'']) ''b''
           @ '' is not a function. Was '' @ typeof (VNum (Finite 3)) @ ''.'',
         type = ''NOT_A_FUNCTION''\<rparr>, []))"
    using routing_errors [OF root p2 pre, where cur = ?cur and ident = "''b''" and as = ?arg
        and fn = "VNum (Finite 3)"] h2 by blast
  have 3: "route exampleEnv ?root ''a.u(1).d'' [] noOptions
     = Some (Inr (Error \<lparr>message = ''The requested path was not found.'', type = ''NOT_FOUND''\<rparr>,
         []))"
    using routing_errors [OF root p3 pre, where cur = ?cur and ident = "''u''" and as = ?arg
        and fn = VUndefined] h3 by blast
  let ?groot = "VObj [(''g'', VGen [])]"
  have groot: "(if typeof ?groot = ''function'' then callFn exampleEnv ?groot VUndefined []
      else Inr ?groot) = Inr ?groot" by simp
  have gparts: "(if ''g.x.y'' \<noteq> [] then analyzePath exampleEnv ''g.x.y'' [] else Inr [])
      = Inr ([ObjectPart ''g''] @ ObjectPart ''x'' # [ObjectPart ''y''])" by code_simp
  have gpre: "walk exampleEnv noOptions [ObjectPart ''g''] None ?groot []
      = Some (Inr (None, VUndefined, []))" by code_simp
  have 4: "route exampleEnv ?groot ''g.x.y'' [] noOptions = Some (Inr (Value VUndefined, []))"
    using routing_errors [OF groot gparts gpre] by simp
  show ?thesis using 1 2 3 4 unfolding m by blast
qed

text \<open>
  C8 (as stated) fails at a step that \<^verbatim>\<open>current\<close> reaches as \<^verbatim>\<open>undefined\<close>: for the root
  \<^verbatim>\<open>{ a: { b: gen } }\<close> and the path \<^verbatim>\<open>a.b.c\<close>, the step \<^verbatim>\<open>c\<close> finds no member and yet no
  \<^verbatim>\<open>NOT_FOUND\<close> error arises; \<^verbatim>\<open>route\<close> returns \<^verbatim>\<open>undefined\<close>.
\<close>

theorem silent_stop_counterexample:
  \<open>route exampleEnv (VObj [(''a'', VObj [(''b'', VGen [])])]) ''a.b.c'' [] noOptions
     = Some (Inr (Value VUndefined, [])) \<and>
   route exampleEnv (VObj [(''a'', VObj [(''b'', VGen [])])]) ''a.b.c'' [] noOptions
     \<noteq> Some (Inr (Error \<lparr>message = ''The requested path was not found.'',
           type = ''NOT_FOUND''\<rparr>, []))\<close>
  by code_simp

lemma hasOwnProperty_non_object: "typeof v \<noteq> ''object'' \<Longrightarrow> hasOwnProperty v k = Inr False"
  by (simp add: hasOwnProperty_def)

text \<open>
  C10 (as amended). The own-property check answers false for every value whose \<^verbatim>\<open>typeof\<close> is
  not \<^verbatim>\<open>"object"\<close>, also when the value owns the property, as a function with that member
  does. So a step that finds \<^verbatim>\<open>current\<close> defined and applies the check to a function,
  string, number or boolean (to \<^verbatim>\<open>current\<close> itself, or to what \<^verbatim>\<open>modifyHandler\<close> replaced it
  with) makes \<^verbatim>\<open>route\<close> return the \<^verbatim>\<open>NOT_FOUND\<close> error, and the index member is never
  applied to a final \<^verbatim>\<open>current\<close> that is not an object: the result is that value as the
  final \<^verbatim>\<open>await\<close> gives it, which is the value itself unless it is a function with a
  callable \<^verbatim>\<open>then\<close> member. A \<^verbatim>\<open>current\<close> that is \<^verbatim>\<open>undefined\<close> is the exception among the
  non-objects: the step does not reach the check and the walk stops without an error.
\<close>

theorem non_object_current:
  \<open>(typeof v \<noteq> ''object'' \<longrightarrow> hasOwnProperty v k = Inr False) \<and>
   (has_key ps k \<longrightarrow>
      objectHasOwn (VFun f ps) k = Inr True \<and> hasOwnProperty (VFun f ps) k = Inr False) \<and>
   (typeof current \<noteq> ''undefined'' \<and>
    applyHandler opts current (VStr (part_identifier p)) = Inr cur \<and>
    typeof cur \<noteq> ''object'' \<longrightarrow>
      routeFrom fe opts (p # rest) obj current seen =
        Some (Inr (Error \<lparr>message = ''The requested path was not found.'', type = ''NOT_FOUND''\<rparr>,
          seen))) \<and>
   (typeof final \<noteq> ''object'' \<longrightarrow>
      finalResult fe opts None final seen =
        bindC (await fe final) (\<lambda>v. Some (Inr (Value v, seen)))) \<and>
   (typeof final \<noteq> ''object'' \<and> \<not> isThenable final \<longrightarrow>
      finalResult fe opts None final seen = Some (Inr (Value final, seen)))\<close>
proof -
  have 1: "routeFrom fe opts (p # rest) obj current seen = Some (Inr (Error notFound, seen))"
    if "typeof current \<noteq> ''undefined''"
      "applyHandler opts current (VStr (part_identifier p)) = Inr cur" "typeof cur \<noteq> ''object''"
    using step_missing [OF that(1,2) hasOwnProperty_non_object [OF that(3)]]
    by (rule routeFrom_Break)
  have 2: "finalResult fe opts None final seen =
      bindC (await fe final) (\<lambda>v. Some (Inr (Value v, seen)))"
    if "typeof final \<noteq> ''object''"
    using that by (simp add: finalResult_def bindE_def hasOwnProperty_non_object)
  have 3: "finalResult fe opts None final seen = Some (Inr (Value final, seen))"
    if "typeof final \<noteq> ''object''" "\<not> isThenable final"
    using 2 [OF that(1)] await_non_object [OF that] by (simp add: bindC_def)
  show ?thesis
    using 1 2 3 by (auto simp: notFound_def hasOwnProperty_def)
qed

text \<open>Instances: a string and its \<^verbatim>\<open>length\<close>, and a function that owns the member \<^verbatim>\<open>a\<close>.\<close>

theorem non_object_current_witness:
  \<open>hasOwnProperty (VStr ''abc'') ''length'' = Inr False \<and>
   objectHasOwn (VFun 0 [(''a'', VNum (Finite 1))]) ''a'' = Inr True \<and>
   routeFrom exampleEnv noOptions [ObjectPart ''a'', ObjectPart ''b''] None
       (VFun 0 [(''a'', VNum (Finite 1))]) []
     = Some (Inr (Error \<lparr>message = ''The requested path was not found.'', type = ''NOT_FOUND''\<rparr>,
         [])) \<and>
   finalResult exampleEnv (noOptions\<lparr>index := Some ''a''\<rparr>) None
       (VFun 0 [(''a'', VNum (Finite 1))]) []
     = Some (Inr (Value (VFun 0 [(''a'', VNum (Finite 1))]), []))\<close>
proof -
  let ?f = "VFun 0 [(''a'', VNum (Finite 1))]"
  note th = non_object_current [where v = "VStr ''abc''" and k = "''length''"
      and ps = "[(''a'', VNum (Finite 1))]" and f = 0 and current = ?f and cur = ?f
      and p = "ObjectPart ''a''" and final = ?f and fe = exampleEnv and seen = "[]"]
  have h1: "typeof (VStr ''abc'') \<noteq> ''object''" by code_simp
  have h2: "typeof ?f \<noteq> ''undefined'' \<and>
      applyHandler noOptions ?f (VStr (part_identifier (ObjectPart ''a''))) = Inr ?f \<and>
      typeof ?f \<noteq> ''object''" by code_simp
  have h3: "typeof ?f \<noteq> ''object'' \<and> \<not> isThenable ?f" by code_simp
  have 1: "hasOwnProperty (VStr ''abc'') ''length'' = Inr False" using th h1 by blast
  have 2: "objectHasOwn ?f ''a'' = Inr True" by code_simp
  have 3: "routeFrom exampleEnv noOptions [ObjectPart ''a'', ObjectPart ''b''] None ?f []
     = Some (Inr (Error \<lparr>message = ''The requested path was not found.'', type = ''NOT_FOUND''\<rparr>,
         []))"
    using th [where opts = noOptions and rest = "[ObjectPart ''b'']" and obj = None] h2 by blast
  have 4: "finalResult exampleEnv (noOptions\<lparr>index := Some ''a''\<rparr>) None ?f []
     = Some (Inr (Value ?f, []))"
    using th [where opts = "noOptions\<lparr>index := Some ''a''\<rparr>"] h3 by blast
  show ?thesis using 1 2 3 4 by blast
qed

text \<open>
  C10 (as stated) fails for the non-object \<^verbatim>\<open>undefined\<close>: with the root \<^verbatim>\<open>undefined\<close>, the step
  \<^verbatim>\<open>a\<close> resolves to no error, and \<^verbatim>\<open>route\<close> returns \<^verbatim>\<open>undefined\<close>.
\<close>

theorem undefined_current_counterexample:
  \<open>typeof VUndefined \<noteq> ''object'' \<and>
   route exampleEnv VUndefined ''a'' [] noOptions = Some (Inr (Value VUndefined, [])) \<and>
   route exampleEnv VUndefined ''a'' [] noOptions
     \<noteq> Some (Inr (Error \<lparr>message = ''The requested path was not found.'',
           type = ''NOT_FOUND''\<rparr>, []))\<close>
  by code_simp

text \<open>
  An object step whose member is an own property with the value \<^verbatim>\<open>undefined\<close> throws: the
  value reaches \<^verbatim>\<open>__isIterable\<close>, which reads \<^verbatim>\<open>gen.next\<close> of \<^verbatim>\<open>undefined\<close>.
\<close>

lemma undefined_member_step:
  "modifyHandler opts = None \<Longrightarrow> has_key ps ident \<Longrightarrow> lookup ps ident = VUndefined \<Longrightarrow>
     step fe opts (ObjectPart ident) obj (VObj ps) seen = Some (Inl TypeError)"
  by (simp add: step_def applyHandler_def hasOwnProperty_def bindE_def bindC_def
      iterateToEnd_def dunder_isIterable_def)

text \<open>
  C2, at the input where the code departs from it: for the root \<^verbatim>\<open>{ a: undefined }\<close> and the
  path \<^verbatim>\<open>a\<close>, \<^verbatim>\<open>route\<close> rejects with a \<^verbatim>\<open>TypeError\<close> instead of stopping silently with
  \<^verbatim>\<open>undefined\<close>; an absent member gives the \<^verbatim>\<open>NOT_FOUND\<close> error, as the claim says.
\<close>

theorem undefined_member_throws:
  \<open>route exampleEnv (VObj [(''a'', VUndefined)]) ''a'' [] noOptions = Some (Inl TypeError) \<and>
   route exampleEnv (VObj []) ''a'' [] noOptions
     = Some (Inr (Error \<lparr>message = ''The requested path was not found.'', type = ''NOT_FOUND''\<rparr>,
         []))\<close>
  by code_simp

subsection \<open>Draining\<close>

lemma iterLoop_more:
  "pull fe opts gen seen = Some (Inr (Inr (gen', seen'))) \<Longrightarrow>
     iterLoop fe opts gen seen = iterLoop fe opts gen' seen'"
  by (subst iterLoop.simps) simp

lemma iterLoop_done:
  "pull fe opts gen seen = Some (Inr (Inl res)) \<Longrightarrow> iterLoop fe opts gen seen = Some (Inr res)"
  by (subst iterLoop.simps) simp

lemma pull_yield:
  assumes "truthy (onNextValue opts)" "pulled fe e = Some (Inr (False, a'))"
    "callFn fe (onNextValue opts) VUndefined [a'] = Inr x"
  shows "pull fe opts (VGen (e # es)) seen = Some (Inr (Inr (VGen es, seen @ [a'])))"
proof -
  from assms(2) obtain nextVal d v where
    "await fe e = Some (Inr nextVal)" "getp nextVal ''done'' = Inr d" "\<not> truthy d"
    "getp nextVal ''value'' = Inr v" "await fe v = Some (Inr a')"
    unfolding pulled_def by (auto dest!: bindC_Some bindE_Some)
  with assms(1,3) show ?thesis
    by (simp add: pull_def bindE_def bindC_def)
qed

lemma pull_return:
  assumes "pulled fe e = Some (Inr (True, v'))"
  shows "pull fe opts (VGen (e # es)) seen = Some (Inr (Inl (v', seen)))"
proof -
  from assms obtain nextVal d v where
    "await fe e = Some (Inr nextVal)" "getp nextVal ''done'' = Inr d" "truthy d"
    "getp nextVal ''value'' = Inr v" "await fe v = Some (Inr v')"
    unfolding pulled_def by (auto dest!: bindC_Some bindE_Some)
  then show ?thesis
    by (simp add: pull_def bindE_def bindC_def)
qed

lemma iterateToEnd_two:
  assumes "truthy (onNextValue opts)"
    "callFn fe (onNextValue opts) VUndefined [a'] = Inr ra"
    "callFn fe (onNextValue opts) VUndefined [b'] = Inr rb"
    "pulled fe e1 = Some (Inr (False, a'))" "pulled fe e2 = Some (Inr (False, b'))"
    "pulled fe e3 = Some (Inr (True, v'))"
  shows "iterateToEnd fe opts (VGen (e1 # e2 # e3 # later)) seen
    = Some (Inr (v', seen @ [a', b']))"
proof -
  have "iterLoop fe opts (VGen (e1 # e2 # e3 # later)) seen
      = iterLoop fe opts (VGen (e2 # e3 # later)) (seen @ [a'])"
    by (rule iterLoop_more) (rule pull_yield [OF assms(1,4,2)])
  also have "\<dots> = iterLoop fe opts (VGen (e3 # later)) ((seen @ [a']) @ [b'])"
    by (rule iterLoop_more) (rule pull_yield [OF assms(1,5,3)])
  also have "\<dots> = Some (Inr (v', (seen @ [a']) @ [b']))"
    by (rule iterLoop_done) (rule pull_return [OF assms(6)])
  finally show ?thesis
    by (simp add: iterateToEnd_def dunder_isIterable_def bindE_def)
qed

text \<open>
  C9. Let the hook be configured and return normally. When the invocation of a step (a
  function step, or an object step whose member is a function or the sequence itself)
  returns an incremental sequence whose first two pulls, once awaited, deliver the elements
  \<open>a\<close> and \<open>b\<close> and whose third pull reports completion with \<open>v\<close> (each \<^verbatim>\<open>next()\<close> result and
  each value may be a promise), then the hook is called exactly with the awaited \<open>a\<close> and
  then the awaited \<open>b\<close>, not with the terminal value; the step hands the awaited \<open>v\<close> on as
  \<^verbatim>\<open>current\<close>; a walk that ends with this step ends with \<open>v\<close> and no error; and a walk with
  further parts goes on from \<open>v\<close>.
\<close>

theorem drain_two_elements:
  assumes "truthy (onNextValue opts)"
    and "callFn fe (onNextValue opts) VUndefined [a'] = Inr ra"
    and "callFn fe (onNextValue opts) VUndefined [b'] = Inr rb"
    and "pulled fe e1 = Some (Inr (False, a'))" "pulled fe e2 = Some (Inr (False, b'))"
    and "pulled fe e3 = Some (Inr (True, v'))"
    and "gen = VGen (e1 # e2 # e3 # later)"
  shows "iterateToEnd fe opts gen seen = Some (Inr (v', seen @ [a', b'])) \<and>
    (typeof current \<noteq> ''undefined'' \<and> applyHandler opts current (VStr ident) = Inr cur \<and>
     hasOwnProperty cur ident = Inr True \<and> getp cur ident = Inr fn \<and>
     typeof fn = ''function'' \<and> callArgs opts as = Inr argv \<and>
     callFn fe fn cur argv = Inr r \<and> await fe r = Some (Inr gen) \<longrightarrow>
       step fe opts (FunctionPart ident as) obj current seen
         = Some (Inr (Next v' (seen @ [a', b']))) \<and>
       walk fe opts [FunctionPart ident as] obj0 current seen
         = Some (Inr (None, v', seen @ [a', b'])) \<and>
       walk fe opts (FunctionPart ident as # rest) obj0 current seen
         = walk fe opts rest (Some (extendObj obj0 ident)) v' (seen @ [a', b'])) \<and>
    (typeof current \<noteq> ''undefined'' \<and> applyHandler opts current (VStr ident) = Inr cur \<and>
     hasOwnProperty cur ident = Inr True \<and> getp cur ident = Inr ref \<and>
     (if typeof ref = ''function'' then callFn fe ref cur (args opts) else Inr ref) = Inr r \<and>
     await fe r = Some (Inr gen) \<longrightarrow>
       step fe opts (ObjectPart ident) obj current seen
         = Some (Inr (Next v' (seen @ [a', b']))) \<and>
       walk fe opts [ObjectPart ident] obj0 current seen
         = Some (Inr (None, v', seen @ [a', b'])) \<and>
       walk fe opts (ObjectPart ident # rest) obj0 current seen
         = walk fe opts rest (Some (extendObj obj0 ident)) v' (seen @ [a', b']))"
proof -
  have drain: "iterateToEnd fe opts gen seen = Some (Inr (v', seen @ [a', b']))"
    unfolding assms(7) by (rule iterateToEnd_two [OF assms(1-6)])
  have fstep: "step fe opts (FunctionPart ident as) obj current seen
      = Some (Inr (Next v' (seen @ [a', b'])))"
    if "typeof current \<noteq> ''undefined''" "applyHandler opts current (VStr ident) = Inr cur"
      "hasOwnProperty cur ident = Inr True" "getp cur ident = Inr fn"
      "typeof fn = ''function''" "callArgs opts as = Inr argv"
      "callFn fe fn cur argv = Inr r" "await fe r = Some (Inr gen)" for obj
    using that drain by (simp add: step_def bindE_def bindC_def)
  have ostep: "step fe opts (ObjectPart ident) obj current seen
      = Some (Inr (Next v' (seen @ [a', b'])))"
    if "typeof current \<noteq> ''undefined''" "applyHandler opts current (VStr ident) = Inr cur"
      "hasOwnProperty cur ident = Inr True" "getp cur ident = Inr ref"
      "(if typeof ref = ''function'' then callFn fe ref cur (args opts) else Inr ref) = Inr r"
      "await fe r = Some (Inr gen)" for obj
    using that drain by (simp add: step_def bindE_def bindC_def)
  show ?thesis using drain fstep ostep by simp
qed

text \<open>
  Instance: function 2 of the example environment, an asynchronous generator, called by
  the part \<^verbatim>\<open>progress\<close>, with function 3 as the hook.
\<close>

theorem drain_two_elements_witness:
  \<open>iterateToEnd exampleEnv (noOptions\<lparr>onNextValue := VFun 3 []\<rparr>)
       (VGen [VFulfilled (iterResult (VFulfilled (VNum (Finite 1))) False),
          iterResult (VNum (Finite 2)) False, VFulfilled (iterResult (VStr ''end'') True)]) []
     = Some (Inr (VStr ''end'', [VNum (Finite 1), VNum (Finite 2)])) \<and>
   step exampleEnv (noOptions\<lparr>onNextValue := VFun 3 []\<rparr>) (FunctionPart ''progress'' [])
       ''progress'' (VObj [(''progress'', VFun 2 [])]) []
     = Some (Inr (Next (VStr ''end'') [VNum (Finite 1), VNum (Finite 2)])) \<and>
   walk exampleEnv (noOptions\<lparr>onNextValue := VFun 3 []\<rparr>) [FunctionPart ''progress'' []] None
       (VObj [(''progress'', VFun 2 [])]) []
     = Some (Inr (None, VStr ''end'', [VNum (Finite 1), VNum (Finite 2)])) \<and>
   route exampleEnv (VObj [(''progress'', VFun 2 [])]) ''progress'' []
       (noOptions\<lparr>onNextValue := VFun 3 []\<rparr>)
     = Some (Inr (Value (VStr ''end''), [VNum (Finite 1), VNum (Finite 2)]))\<close>
proof -
  let ?opts = "noOptions\<lparr>onNextValue := VFun 3 []\<rparr>"
  let ?e1 = "VFulfilled (iterResult (VFulfilled (VNum (Finite 1))) False)"
  let ?e2 = "iterResult (VNum (Finite 2)) False"
  let ?e3 = "VFulfilled (iterResult (VStr ''end'') True)"
  let ?gen = "VGen [?e1, ?e2, ?e3]"
  let ?cur = "VObj [(''progress'', VFun 2 [])]"
  have h: "truthy (onNextValue ?opts)"
    "callFn exampleEnv (onNextValue ?opts) VUndefined [VNum (Finite 1)] = Inr (VBool True)"
    "callFn exampleEnv (onNextValue ?opts) VUndefined [VNum (Finite 2)] = Inr (VBool True)"
    "pulled exampleEnv ?e1 = Some (Inr (False, VNum (Finite 1)))"
    "pulled exampleEnv ?e2 = Some (Inr (False, VNum (Finite 2)))"
    "pulled exampleEnv ?e3 = Some (Inr (True, VStr ''end''))"
    "?gen = VGen (?e1 # ?e2 # ?e3 # [])"
    by code_simp+
  note th = drain_two_elements [OF h, where seen = "[]"]
  have p: "typeof ?cur \<noteq> ''undefined'' \<and> applyHandler ?opts ?cur (VStr ''progress'') = Inr ?cur \<and>
     hasOwnProperty ?cur ''progress'' = Inr True \<and> getp ?cur ''progress'' = Inr (VFun 2 []) \<and>
     typeof (VFun 2 []) = ''function'' \<and> callArgs ?opts [] = Inr [] \<and>
     callFn exampleEnv (VFun 2 []) ?cur [] = Inr (VFulfilled ?gen) \<and>
     await exampleEnv (VFulfilled ?gen) = Some (Inr ?gen)"
    by code_simp
  have 1: "iterateToEnd exampleEnv ?opts ?gen []
     = Some (Inr (VStr ''end'', [VNum (Finite 1), VNum (Finite 2)]))"
    using th by simp
  have 2: "step exampleEnv ?opts (FunctionPart ''progress'' []) ''progress'' ?cur []
       = Some (Inr (Next (VStr ''end'') ([] @ [VNum (Finite 1), VNum (Finite 2)]))) \<and>
     walk exampleEnv ?opts [FunctionPart ''progress'' []] None ?cur []
       = Some (Inr (None, VStr ''end'', [] @ [VNum (Finite 1), VNum (Finite 2)]))"
    using th [where current = ?cur and cur = ?cur and ident = "''progress''" and fn = "VFun 2 []"
        and as = "[]" and argv = "[]" and r = "VFulfilled ?gen" and obj = "''progress''"
        and ?obj0.0 = None and rest = "[]"] p
    by blast
  have 3: "route exampleEnv ?cur ''progress'' [] ?opts
     = Some (Inr (Value (VStr ''end''), [VNum (Finite 1), VNum (Finite 2)]))"
    by code_simp
  show ?thesis using 1 2 3 by simp
qed

subsection \<open>Completion\<close>





























end
